theory Spec2Isabelle
  imports Complex_Main
begin

section \<open>Heatmap target generators of DeepLabCut (heatmap\_targets.py)\<close>

text \<open>
  The module turns keypoint annotations into dense heatmap, location-refinement
  (locref) and mask targets. The embedding follows the source line by line.

  Numbers: NumPy's float32/float64 values are modelled by exact reals (no rounding, no
  overflow, no NaN); the int64 grid and the integer mask are modelled by \<open>int\<close>. Where the
  source stores a float into an integer array the truncation is written out.

  Exceptions are values of \<open>error\<close>; a function that can raise returns \<open>error + 'a\<close>.
\<close>

datatype error = ZeroDivisionError | ValueError | IndexError | KeyError | TypeError | AttributeError

subsection \<open>Dense arrays\<close>

text \<open>
  A rank-4 ndarray is its shape together with its indexing function. Only cells inside
  the shape are ever read or written by the code below.
\<close>

record 'a array4 =
  shape4 :: "nat \<times> nat \<times> nat \<times> nat"
  at4 :: "nat \<Rightarrow> nat \<Rightarrow> nat \<Rightarrow> nat \<Rightarrow> 'a"

definition zeros4 :: "nat \<times> nat \<times> nat \<times> nat \<Rightarrow> ('a::zero) array4" where
  \<comment> \<open>\<open>np.zeros(shape)\<close>\<close>
  "zeros4 shp = \<lparr>shape4 = shp, at4 = (\<lambda>_ _ _ _. 0)\<rparr>"

definition transpose_0312 :: "'a array4 \<Rightarrow> 'a array4" where
  \<comment> \<open>\<open>a.transpose((0, 3, 1, 2))\<close>: axis \<open>k\<close> of the result is axis \<open>(0, 3, 1, 2)[k]\<close> of \<open>a\<close>\<close>
  "transpose_0312 a =
     (case shape4 a of (n0, n1, n2, n3) \<Rightarrow>
        \<lparr>shape4 = (n0, n3, n1, n2), at4 = (\<lambda>b c h w. at4 a b h w c)\<rparr>)"

definition ndarray_bool :: "nat \<Rightarrow> bool \<Rightarrow> error + bool" where
  \<comment> \<open>Truth value of an ndarray with \<open>n\<close> elements (\<open>if arr:\<close>), as NumPy defines it: an
      empty array is false (with a deprecation warning in NumPy 1.x), a one-element array
      has the truth value \<open>nz\<close> of its element, and any larger array raises ValueError
      ("The truth value of an array with more than one element is ambiguous").\<close>
  "ndarray_bool n nz =
     (if n = 0 then Inr False else if n = 1 then Inr nz else Inl ValueError)"

subsection \<open>The generator and its constructor\<close>

datatype Mode = INDIVIDUAL | KEYPOINT

text \<open>The two concrete subclasses differ only in \<open>update\<close>; the tag records the class.\<close>

datatype kernel = HeatmapGaussianGenerator | HeatmapPlateauGenerator

record generator =
  kernel_of :: kernel
  num_heatmaps :: nat
  dist_thresh :: real
  dist_thresh_sq :: real
  std :: real
  heatmap_mode :: Mode
  generate_locref :: bool
  locref_scale :: real

text \<open>
  The constructor also accepts the mode as a string, converted by \<open>Mode(heatmap_mode)\<close>;
  the model takes the mode itself.
\<close>

definition init :: "kernel \<Rightarrow> nat \<Rightarrow> int \<Rightarrow> Mode \<Rightarrow> bool \<Rightarrow> real \<Rightarrow> error + generator" where
  \<comment> \<open>\<open>HeatmapGenerator.__init__\<close>; \<open>1.0 / locref_std\<close> is a Python float division, which
      raises on a zero divisor.\<close>
  "init k n pos_dist_thresh mode gen_locref locref_std =
     (if locref_std = 0 then Inl ZeroDivisionError
      else Inr \<lparr>kernel_of = k,
                num_heatmaps = n,
                dist_thresh = real_of_int pos_dist_thresh,
                dist_thresh_sq = (real_of_int pos_dist_thresh)\<^sup>2,
                std = 2 * real_of_int pos_dist_thresh / 3,
                heatmap_mode = mode,
                generate_locref = gen_locref,
                locref_scale = 1 / locref_std\<rparr>)"

subsection \<open>The grid (forward, lines 145--147)\<close>

definition trunc :: "real \<Rightarrow> int" where
  \<comment> \<open>the C cast of a float to a signed integer: rounding toward zero\<close>
  "trunc x = (if 0 \<le> x then \<lfloor>x\<rfloor> else \<lceil>x\<rceil>)"

definition mgrid :: "nat \<Rightarrow> nat \<Rightarrow> int \<times> int" where
  \<comment> \<open>\<open>np.mgrid[:height, :width].transpose((1, 2, 0))\<close>: an integer array holding its own
      indices\<close>
  "mgrid i j = (int i, int j)"

definition grid_of :: "real \<Rightarrow> real \<Rightarrow> nat \<Rightarrow> nat \<Rightarrow> int \<times> int" where
  \<comment> \<open>The two slice assignments write a float expression into the integer array
      \<open>grid\<close>, which keeps its integer dtype: each value is truncated.\<close>
  "grid_of stride_y stride_x i j =
     (trunc (real_of_int (fst (mgrid i j)) * stride_y + stride_y / 2),
      trunc (real_of_int (snd (mgrid i j)) * stride_x + stride_x / 2))"

definition as_float :: "(nat \<Rightarrow> nat \<Rightarrow> int \<times> int) \<Rightarrow> nat \<Rightarrow> nat \<Rightarrow> real \<times> real" where
  \<comment> \<open>the promotion of the integer grid in \<open>grid - keypoint\<close>\<close>
  "as_float gr i j = (real_of_int (fst (gr i j)), real_of_int (snd (gr i j)))"

subsection \<open>The kernels: update\<close>

text \<open>
  \<open>update\<close> mutates three views in place: the heatmap channel of shape \<open>(H, W)\<close> and, when
  locref generation is on, the locref map and mask slices of shape \<open>(H, W, 2)\<close>
  (\<open>None\<close> otherwise). The model passes the views' contents in and returns their contents
  after the call, together with the exception raised, if any: writes made before a raise
  stay in the buffers.

  The Gaussian response divides by \<open>2 * std ** 2\<close>. For \<open>pos_dist_thresh = 0\<close> NumPy's
  division by zero yields an infinity or NaN, which the reals do not have; the properties of
  the heatmap values below are stated for generators built with a positive threshold, as
  the configuration requires.
\<close>

record views =
  heatmap :: "nat \<Rightarrow> nat \<Rightarrow> real"
  locref_map :: "(nat \<Rightarrow> nat \<Rightarrow> nat \<Rightarrow> real) option"
  locref_mask :: "(nat \<Rightarrow> nat \<Rightarrow> nat \<Rightarrow> int) option"

definition norm2 :: "real \<times> real \<Rightarrow> real" where
  \<comment> \<open>\<open>np.linalg.norm(v, axis=2)\<close> on the last axis of length 2\<close>
  "norm2 v = sqrt ((fst v)\<^sup>2 + (snd v)\<^sup>2)"

definition diff2 :: "real \<times> real \<Rightarrow> real \<times> real \<Rightarrow> real \<times> real" where
  \<comment> \<open>\<open>grid - keypoint\<close> at one cell\<close>
  "diff2 p q = (fst p - fst q, snd p - snd q)"

definition set_comp :: "nat \<Rightarrow> nat \<Rightarrow> nat \<Rightarrow> (nat \<Rightarrow> nat \<Rightarrow> 'a) \<Rightarrow> (nat \<Rightarrow> nat \<Rightarrow> nat \<Rightarrow> 'a)
    \<Rightarrow> (nat \<Rightarrow> nat \<Rightarrow> nat \<Rightarrow> 'a)" where
  \<comment> \<open>\<open>m[:, :, d] = v\<close> on a view of shape \<open>(H, W, 2)\<close>\<close>
  "set_comp H W d v m = (\<lambda>i j d'. if i < H \<and> j < W \<and> d' = d then v i j else m i j d')"

definition set_comp_where :: "nat \<Rightarrow> nat \<Rightarrow> (nat \<Rightarrow> nat \<Rightarrow> bool) \<Rightarrow> nat \<Rightarrow> (nat \<Rightarrow> nat \<Rightarrow> 'a)
    \<Rightarrow> (nat \<Rightarrow> nat \<Rightarrow> nat \<Rightarrow> 'a) \<Rightarrow> (nat \<Rightarrow> nat \<Rightarrow> nat \<Rightarrow> 'a)" where
  \<comment> \<open>\<open>m[mask, d] = v[mask]\<close>\<close>
  "set_comp_where H W sel d v m =
     (\<lambda>i j d'. if i < H \<and> j < W \<and> sel i j \<and> d' = d then v i j else m i j d')"

definition set_where :: "nat \<Rightarrow> nat \<Rightarrow> (nat \<Rightarrow> nat \<Rightarrow> bool) \<Rightarrow> 'a
    \<Rightarrow> (nat \<Rightarrow> nat \<Rightarrow> nat \<Rightarrow> 'a) \<Rightarrow> (nat \<Rightarrow> nat \<Rightarrow> nat \<Rightarrow> 'a)" where
  \<comment> \<open>\<open>m[mask] = c\<close> with a boolean mask of shape \<open>(H, W)\<close> on a view of shape \<open>(H, W, 2)\<close>:
      both components of every selected cell\<close>
  "set_where H W sel c m =
     (\<lambda>i j d. if i < H \<and> j < W \<and> d < 2 \<and> sel i j then c else m i j d)"

definition update_gaussian :: "generator \<Rightarrow> nat \<Rightarrow> nat \<Rightarrow> (nat \<Rightarrow> nat \<Rightarrow> real \<times> real)
    \<Rightarrow> real \<times> real \<Rightarrow> views \<Rightarrow> views \<times> error option" where
  \<comment> \<open>\<open>HeatmapGaussianGenerator.update\<close>\<close>
  "update_gaussian g H W grid keypoint v =
     (let dist = (\<lambda>i j. (norm2 (diff2 (grid i j) keypoint))\<^sup>2);
          heatmap_j = (\<lambda>i j. exp (- dist i j / (2 * (std g)\<^sup>2)));
          v1 = v\<lparr>heatmap :=
                  (\<lambda>i j. if i < H \<and> j < W then max (heatmap v i j) (heatmap_j i j)
                         else heatmap v i j)\<rparr>;
          v2 = (case locref_map v1 of
                  None \<Rightarrow> v1
                | Some m \<Rightarrow>
                    (let dx = (\<lambda>i j. snd keypoint - snd (grid i j));
                         dy = (\<lambda>i j. fst keypoint - fst (grid i j));
                         m0 = set_comp H W 0 (\<lambda>i j. dx i j * locref_scale g) m;
                         m1 = set_comp H W 1 (\<lambda>i j. dy i j * locref_scale g) m0
                     in v1\<lparr>locref_map := Some m1\<rparr>))
      in case locref_mask v2 of
           None \<Rightarrow> (v2, None)
         | Some k \<Rightarrow>
             (case ndarray_bool (H * W * 2) (k 0 0 0 \<noteq> 0) of
                Inl e \<Rightarrow> (v2, Some e)
              | Inr False \<Rightarrow> (v2, None)
              | Inr True \<Rightarrow>
                  (v2\<lparr>locref_mask :=
                        Some (set_where H W (\<lambda>i j. dist i j \<le> dist_thresh_sq g) 1 k)\<rparr>,
                   None)))"

definition update_plateau :: "generator \<Rightarrow> nat \<Rightarrow> nat \<Rightarrow> (nat \<Rightarrow> nat \<Rightarrow> real \<times> real)
    \<Rightarrow> real \<times> real \<Rightarrow> views \<Rightarrow> views \<times> error option" where
  \<comment> \<open>\<open>HeatmapPlateauGenerator.update\<close>\<close>
  "update_plateau g H W grid keypoint v =
     (let dist = (\<lambda>i j. (fst (diff2 (grid i j) keypoint))\<^sup>2
                         + (snd (diff2 (grid i j) keypoint))\<^sup>2);
          mask = (\<lambda>i j. dist i j \<le> dist_thresh_sq g);
          v1 = v\<lparr>heatmap :=
                  (\<lambda>i j. if i < H \<and> j < W \<and> mask i j then 1 else heatmap v i j)\<rparr>;
          v2 = (case locref_map v1 of
                  None \<Rightarrow> v1
                | Some m \<Rightarrow>
                    (let dx = (\<lambda>i j. snd keypoint - snd (grid i j));
                         dy = (\<lambda>i j. fst keypoint - fst (grid i j));
                         m0 = set_comp_where H W mask 0 (\<lambda>i j. dx i j * locref_scale g) m;
                         m1 = set_comp_where H W mask 1 (\<lambda>i j. dy i j * locref_scale g) m0
                     in v1\<lparr>locref_map := Some m1\<rparr>));
          v3 = (case locref_mask v2 of
                  None \<Rightarrow> v2
                | Some k \<Rightarrow> v2\<lparr>locref_mask := Some (set_where H W mask 1 k)\<rparr>)
      in (v3, None))"

definition update :: "generator \<Rightarrow> nat \<Rightarrow> nat \<Rightarrow> (nat \<Rightarrow> nat \<Rightarrow> real \<times> real)
    \<Rightarrow> real \<times> real \<Rightarrow> views \<Rightarrow> views \<times> error option" where
  \<comment> \<open>dynamic dispatch on the generator's class\<close>
  "update g H W grid keypoint v =
     (case kernel_of g of
        HeatmapGaussianGenerator \<Rightarrow> update_gaussian g H W grid keypoint v
      | HeatmapPlateauGenerator \<Rightarrow> update_plateau g H W grid keypoint v)"

subsection \<open>The keypoint batch (forward, lines 128--134)\<close>

text \<open>
  The annotated keypoints arrive either with shape \<open>(batch, type, 2)\<close> or with shape
  \<open>(batch, subject, type, 2)\<close>. The last axis holds the two coordinates of a keypoint in
  annotation order, here a pair.
\<close>

datatype keypoints =
    Rank3 "nat \<times> nat" "nat \<Rightarrow> nat \<Rightarrow> real \<times> real"
  | Rank4 "nat \<times> nat \<times> nat" "nat \<Rightarrow> nat \<Rightarrow> nat \<Rightarrow> real \<times> real"

record coords =
  c_shape :: "nat \<times> nat \<times> nat"
  c_at :: "nat \<Rightarrow> nat \<Rightarrow> nat \<Rightarrow> real \<times> real"

definition add_individual_dim :: "nat \<Rightarrow> keypoints \<Rightarrow> error + coords" where
  \<comment> \<open>\<open>coords.reshape((batch_size, 1, *coords.shape[1:]))\<close> for a rank-3 array; reshape raises
      ValueError when the number of elements changes\<close>
  "add_individual_dim batch_size kps =
     (case kps of
        Rank3 (n, k) f \<Rightarrow>
          if n * k * 2 = batch_size * 1 * k * 2
          then Inr \<lparr>c_shape = (batch_size, 1, k), c_at = (\<lambda>b s t. f b t)\<rparr>
          else Inl ValueError
      | Rank4 shp f \<Rightarrow> Inr \<lparr>c_shape = shp, c_at = f\<rparr>)"

definition transpose_0213 :: "coords \<Rightarrow> coords" where
  \<comment> \<open>\<open>coords.transpose((0, 2, 1, 3))\<close>\<close>
  "transpose_0213 cs =
     (case c_shape cs of (n0, n1, n2) \<Rightarrow>
        \<lparr>c_shape = (n0, n2, n1), c_at = (\<lambda>b i j. c_at cs b j i)\<rparr>)"

definition coords_of :: "generator \<Rightarrow> nat \<Rightarrow> keypoints \<Rightarrow> error + coords" where
  "coords_of g batch_size kps =
     (case add_individual_dim batch_size kps of
        Inl e \<Rightarrow> Inl e
      | Inr cs \<Rightarrow>
          Inr (if heatmap_mode g = KEYPOINT then transpose_0213 cs else cs))"

subsection \<open>The buffers and the loop body (forward, lines 136--162)\<close>

record buffers =
  heatmap_b :: "real array4"
  locref_map_b :: "real array4 option"
  locref_mask_b :: "int array4 option"

definition get_locref :: "generator \<Rightarrow> 'a array4 option \<Rightarrow> nat \<Rightarrow> nat
    \<Rightarrow> error + (nat \<Rightarrow> nat \<Rightarrow> nat \<Rightarrow> 'a) option" where
  \<comment> \<open>\<open>HeatmapGenerator.get_locref\<close>: the view \<open>a[batch_idx, :, :, start_idx:end_idx]\<close>.
      Subscripting \<open>None\<close> raises TypeError and a batch index out of range IndexError. The
      slice has its two components \<open>d = 0, 1\<close> when the array has \<open>end_idx\<close> channels, as
      it has in \<open>forward\<close>, where the heatmap is indexed by \<open>heatmap_idx\<close> first.\<close>
  "get_locref g locref_map_or_mask batch_idx heatmap_idx =
     (if \<not> generate_locref g then Inr None
      else (let start_idx = 2 * heatmap_idx in
            case locref_map_or_mask of
              None \<Rightarrow> Inl TypeError
            | Some a \<Rightarrow>
                (case shape4 a of (B, H, W, C) \<Rightarrow>
                   if B \<le> batch_idx then Inl IndexError
                   else Inr (Some (\<lambda>i j d. at4 a batch_idx i j (start_idx + d))))))"

definition put_heatmap :: "nat \<Rightarrow> nat \<Rightarrow> (nat \<Rightarrow> nat \<Rightarrow> real) \<Rightarrow> real array4 \<Rightarrow> real array4" where
  \<comment> \<open>the contents of the view \<open>heatmap[b, :, :, heatmap_idx]\<close> seen in the whole buffer\<close>
  "put_heatmap b heatmap_idx hm a =
     (case shape4 a of (B, H, W, C) \<Rightarrow>
        a\<lparr>at4 := (\<lambda>b' i j c. if b' = b \<and> c = heatmap_idx \<and> i < H \<and> j < W then hm i j
                             else at4 a b' i j c)\<rparr>)"

definition put_locref :: "nat \<Rightarrow> nat \<Rightarrow> (nat \<Rightarrow> nat \<Rightarrow> nat \<Rightarrow> 'a) \<Rightarrow> 'a array4 \<Rightarrow> 'a array4" where
  \<comment> \<open>the contents of the view \<open>a[b, :, :, 2 * heatmap_idx : 2 * heatmap_idx + 2]\<close> seen in
      the whole buffer\<close>
  "put_locref b heatmap_idx m a =
     (case shape4 a of (B, H, W, C) \<Rightarrow>
        a\<lparr>at4 := (\<lambda>b' i j c. if b' = b \<and> i < H \<and> j < W
                                  \<and> 2 * heatmap_idx \<le> c \<and> c < 2 * heatmap_idx + 2
                             then m i j (c - 2 * heatmap_idx)
                             else at4 a b' i j c)\<rparr>)"

definition write_back :: "nat \<Rightarrow> nat \<Rightarrow> views \<Rightarrow> buffers \<Rightarrow> buffers" where
  "write_back b heatmap_idx v bufs =
     \<lparr>heatmap_b = put_heatmap b heatmap_idx (heatmap v) (heatmap_b bufs),
      locref_map_b =
        (case (locref_map_b bufs, locref_map v) of
           (Some a, Some m) \<Rightarrow> Some (put_locref b heatmap_idx m a)
         | _ \<Rightarrow> locref_map_b bufs),
      locref_mask_b =
        (case (locref_mask_b bufs, locref_mask v) of
           (Some a, Some k) \<Rightarrow> Some (put_locref b heatmap_idx k a)
         | _ \<Rightarrow> locref_mask_b bufs)\<rparr>"

definition keypoint_step :: "generator \<Rightarrow> (nat \<Rightarrow> nat \<Rightarrow> int \<times> int) \<Rightarrow> nat \<Rightarrow> nat
    \<Rightarrow> real \<times> real \<Rightarrow> buffers \<Rightarrow> error + buffers" where
  \<comment> \<open>The body of the innermost loop. \<open>keypoint.copy()[::-1]\<close> reverses the two
      coordinates; \<open>heatmap[b, :, :, heatmap_idx]\<close> raises IndexError on an image or a
      channel the heatmap does not have.\<close>
  "keypoint_step g grid b heatmap_idx kp bufs =
     (let keypoint = (snd kp, fst kp) in
      if fst keypoint \<le> 0 \<or> snd keypoint \<le> 0 then Inr bufs
      else
        (case shape4 (heatmap_b bufs) of (B, H, W, C) \<Rightarrow>
           if B \<le> b \<or> C \<le> heatmap_idx then Inl IndexError
           else
             (case get_locref g (locref_map_b bufs) b heatmap_idx of
                Inl e \<Rightarrow> Inl e
              | Inr lm \<Rightarrow>
                  (case get_locref g (locref_mask_b bufs) b heatmap_idx of
                     Inl e \<Rightarrow> Inl e
                   | Inr lk \<Rightarrow>
                       (case update g H W (as_float grid) keypoint
                               \<lparr>heatmap = (\<lambda>i j. at4 (heatmap_b bufs) b i j heatmap_idx),
                                locref_map = lm, locref_mask = lk\<rparr> of
                          (v, Some e) \<Rightarrow> Inl e
                        | (v, None) \<Rightarrow> Inr (write_back b heatmap_idx v bufs))))))"

fun foldM :: "('a \<Rightarrow> 's \<Rightarrow> error + 's) \<Rightarrow> 'a list \<Rightarrow> 's \<Rightarrow> error + 's" where
  \<comment> \<open>a \<open>for\<close> loop whose body may raise: the first exception ends the loop\<close>
  "foldM f [] s = Inr s"
| "foldM f (x # xs) s = (case f x s of Inl e \<Rightarrow> Inl e | Inr s' \<Rightarrow> foldM f xs s')"

definition group_loop :: "generator \<Rightarrow> (nat \<Rightarrow> nat \<Rightarrow> int \<times> int) \<Rightarrow> coords \<Rightarrow> nat \<Rightarrow> nat
    \<Rightarrow> buffers \<Rightarrow> error + buffers" where
  \<comment> \<open>\<open>for keypoint in group_keypoints\<close>\<close>
  "group_loop g grid cs b heatmap_idx bufs =
     (case c_shape cs of (n0, n1, n2) \<Rightarrow>
        foldM (\<lambda>s. keypoint_step g grid b heatmap_idx (c_at cs b heatmap_idx s)) [0..<n2] bufs)"

definition image_loop :: "generator \<Rightarrow> (nat \<Rightarrow> nat \<Rightarrow> int \<times> int) \<Rightarrow> coords \<Rightarrow> nat
    \<Rightarrow> buffers \<Rightarrow> error + buffers" where
  \<comment> \<open>\<open>for heatmap_idx, group_keypoints in enumerate(coords[b])\<close>; \<open>coords[b]\<close> raises
      IndexError when the keypoint array has fewer than \<open>b + 1\<close> entries\<close>
  "image_loop g grid cs b bufs =
     (case c_shape cs of (n0, n1, n2) \<Rightarrow>
        if n0 \<le> b then Inl IndexError
        else foldM (\<lambda>heatmap_idx. group_loop g grid cs b heatmap_idx) [0..<n1] bufs)"

definition batch_loop :: "generator \<Rightarrow> (nat \<Rightarrow> nat \<Rightarrow> int \<times> int) \<Rightarrow> coords \<Rightarrow> nat
    \<Rightarrow> buffers \<Rightarrow> error + buffers" where
  \<comment> \<open>\<open>for b in range(batch_size)\<close>\<close>
  "batch_loop g grid cs batch_size bufs =
     foldM (\<lambda>b. image_loop g grid cs b) [0..<batch_size] bufs"

subsection \<open>The result (forward, lines 164--179)\<close>

record locref_head =
  target :: "real array4"
  weights :: "int array4"

record targets =
  heatmap_target :: "real array4"
  locref :: "locref_head option"

definition assemble :: "generator \<Rightarrow> (string \<rightharpoonup> nat \<times> nat \<times> nat \<times> nat) \<Rightarrow> buffers
    \<Rightarrow> error + targets" where
  \<comment> \<open>The three transposes and the result dictionary; \<open>outputs["locref"]\<close> raises KeyError
      when the model has no locref head, and \<open>None.transpose\<close> raises AttributeError.\<close>
  "assemble g outputs bufs =
     (let heatmap = transpose_0312 (heatmap_b bufs) in
      if generate_locref g then
        (case locref_map_b bufs of
           None \<Rightarrow> Inl AttributeError
         | Some lm \<Rightarrow>
             (case locref_mask_b bufs of
                None \<Rightarrow> Inl AttributeError
              | Some lk \<Rightarrow>
                  (case outputs ''locref'' of
                     None \<Rightarrow> Inl KeyError
                   | Some _ \<Rightarrow>
                       Inr \<lparr>heatmap_target = heatmap,
                            locref = Some \<lparr>target = transpose_0312 lm,
                                           weights = transpose_0312 lk\<rparr>\<rparr>)))
      else Inr \<lparr>heatmap_target = heatmap, locref = None\<rparr>)"

definition new_buffers :: "generator \<Rightarrow> nat \<Rightarrow> nat \<Rightarrow> nat \<Rightarrow> buffers" where
  \<comment> \<open>lines 136--143: the zero-initialised buffers\<close>
  "new_buffers g batch_size height width =
     \<lparr>heatmap_b = zeros4 (batch_size, height, width, num_heatmaps g),
      locref_map_b =
        (if generate_locref g
         then Some (zeros4 (batch_size, height, width, num_heatmaps g * 2)) else None),
      locref_mask_b =
        (if generate_locref g
         then Some (zeros4 (batch_size, height, width, num_heatmaps g * 2)) else None)\<rparr>"

definition forward_loops :: "generator \<Rightarrow> nat \<times> nat \<times> nat \<times> nat
    \<Rightarrow> (string \<rightharpoonup> nat \<times> nat \<times> nat \<times> nat) \<Rightarrow> keypoints \<Rightarrow> error + buffers" where
  \<comment> \<open>\<open>HeatmapGenerator.forward\<close>, lines 125--162: the buffers when the loops are done. Of
      \<open>inputs\<close> and of each entry of \<open>outputs\<close> only the shape is used. \<open>input_h / height\<close>
      divides Python integers and raises on zero.\<close>
  "forward_loops g inputs_shape outputs kps =
     (case inputs_shape of (batch_size, n_channels, input_h, input_w) \<Rightarrow>
        (case outputs ''heatmap'' of
           None \<Rightarrow> Inl KeyError
         | Some (o0, o1, height, width) \<Rightarrow>
             if height = 0 \<or> width = 0 then Inl ZeroDivisionError
             else
               (let stride_y = real input_h / real height;
                    stride_x = real input_w / real width
                in case coords_of g batch_size kps of
                     Inl e \<Rightarrow> Inl e
                   | Inr cs \<Rightarrow>
                       batch_loop g (grid_of stride_y stride_x) cs batch_size
                         (new_buffers g batch_size height width))))"

definition forward :: "generator \<Rightarrow> nat \<times> nat \<times> nat \<times> nat
    \<Rightarrow> (string \<rightharpoonup> nat \<times> nat \<times> nat \<times> nat) \<Rightarrow> keypoints \<Rightarrow> error + targets" where
  \<comment> \<open>\<open>HeatmapGenerator.forward\<close>: the loops, then the transposes and the result\<close>
  "forward g inputs_shape outputs kps =
     (case forward_loops g inputs_shape outputs kps of
        Inl e \<Rightarrow> Inl e
      | Inr bufs \<Rightarrow> assemble g outputs bufs)"

subsection \<open>Notions used to state the properties\<close>

definition sqdist :: "real \<times> real \<Rightarrow> real \<times> real \<Rightarrow> real" where
  \<comment> \<open>squared Euclidean distance of two points\<close>
  "sqdist p q = (fst p - fst q)\<^sup>2 + (snd p - snd q)\<^sup>2"

definition annotated :: "real \<times> real \<Rightarrow> bool" where
  \<comment> \<open>a stored keypoint that passes the test of line 153\<close>
  "annotated kp \<longleftrightarrow> \<not> (snd kp \<le> 0 \<or> fst kp \<le> 0)"

definition merge_cell :: "generator \<Rightarrow> real \<times> real \<Rightarrow> real \<times> real \<Rightarrow> real \<Rightarrow> real" where
  \<comment> \<open>what one call of \<open>update\<close> does to the heatmap value \<open>h\<close> of a cell centred at \<open>cell\<close>\<close>
  "merge_cell g cell keypoint h =
     (case kernel_of g of
        HeatmapGaussianGenerator \<Rightarrow> max h (exp (- sqdist cell keypoint / (2 * (std g)\<^sup>2)))
      | HeatmapPlateauGenerator \<Rightarrow> if sqdist cell keypoint \<le> dist_thresh_sq g then 1 else h)"

definition merge_list :: "generator \<Rightarrow> real \<times> real \<Rightarrow> (real \<times> real) list \<Rightarrow> real \<Rightarrow> real" where
  \<comment> \<open>the heatmap value of a cell after the stored keypoints \<open>kps\<close> of its channel, in order\<close>
  "merge_list g cell kps h =
     fold (\<lambda>kp h. if annotated kp then merge_cell g cell (snd kp, fst kp) h else h) kps h"

definition buffer_shapes :: "generator \<Rightarrow> nat \<Rightarrow> nat \<Rightarrow> nat \<Rightarrow> buffers \<Rightarrow> bool" where
  \<comment> \<open>the shapes the buffers are created with\<close>
  "buffer_shapes g B H W bufs \<longleftrightarrow>
     shape4 (heatmap_b bufs) = (B, H, W, num_heatmaps g)
     \<and> (case locref_map_b bufs of
          None \<Rightarrow> \<not> generate_locref g
        | Some a \<Rightarrow> generate_locref g \<and> shape4 a = (B, H, W, num_heatmaps g * 2))
     \<and> (case locref_mask_b bufs of
          None \<Rightarrow> \<not> generate_locref g
        | Some a \<Rightarrow> generate_locref g \<and> shape4 a = (B, H, W, num_heatmaps g * 2))"

section \<open>Auxiliary facts\<close>

subsection \<open>What one call of update does\<close>

lemma norm2_sq: "(norm2 (diff2 p q))\<^sup>2 = sqdist p q"
  by (simp add: norm2_def diff2_def sqdist_def)

lemma plateau_dist: "(fst (diff2 p q))\<^sup>2 + (snd (diff2 p q))\<^sup>2 = sqdist p q"
  by (simp add: diff2_def sqdist_def)

lemma sqdist_nonneg: "0 \<le> sqdist p q"
  by (simp add: sqdist_def)

lemma init_Inr:
  "init k n p m gl ls = Inr g \<Longrightarrow>
     kernel_of g = k \<and> num_heatmaps g = n \<and> dist_thresh g = real_of_int p
     \<and> dist_thresh_sq g = (real_of_int p)\<^sup>2 \<and> std g = 2 * real_of_int p / 3
     \<and> heatmap_mode g = m \<and> generate_locref g = gl \<and> locref_scale g = 1 / ls \<and> ls \<noteq> 0"
  by (auto simp add: init_def split: if_splits)

lemma update_gaussian_heatmap:
  "heatmap (fst (update_gaussian g H W grid kp v)) i j =
     (if i < H \<and> j < W
      then max (heatmap v i j) (exp (- sqdist (grid i j) kp / (2 * (std g)\<^sup>2)))
      else heatmap v i j)"
  by (simp add: update_gaussian_def Let_def norm2_sq split: option.splits sum.splits bool.splits)

lemma update_plateau_heatmap:
  "heatmap (fst (update_plateau g H W grid kp v)) i j =
     (if i < H \<and> j < W \<and> sqdist (grid i j) kp \<le> dist_thresh_sq g then 1 else heatmap v i j)"
  by (simp add: update_plateau_def Let_def plateau_dist split: option.splits)

lemma update_gaussian_locref_map:
  "locref_map v = Some m \<Longrightarrow>
   locref_map (fst (update_gaussian g H W grid kp v)) =
     Some (set_comp H W 1 (\<lambda>i j. (fst kp - fst (grid i j)) * locref_scale g)
            (set_comp H W 0 (\<lambda>i j. (snd kp - snd (grid i j)) * locref_scale g) m))"
  by (simp add: update_gaussian_def Let_def split: option.splits sum.splits bool.splits)

lemma update_plateau_locref_map:
  "locref_map v = Some m \<Longrightarrow>
   locref_map (fst (update_plateau g H W grid kp v)) =
     Some (set_comp_where H W (\<lambda>i j. sqdist (grid i j) kp \<le> dist_thresh_sq g) 1
             (\<lambda>i j. (fst kp - fst (grid i j)) * locref_scale g)
            (set_comp_where H W (\<lambda>i j. sqdist (grid i j) kp \<le> dist_thresh_sq g) 0
               (\<lambda>i j. (snd kp - snd (grid i j)) * locref_scale g) m))"
  by (simp add: update_plateau_def Let_def plateau_dist split: option.splits)

lemma update_plateau_locref_mask:
  "locref_mask v = Some k \<Longrightarrow>
   locref_mask (fst (update_plateau g H W grid kp v)) =
     Some (set_where H W (\<lambda>i j. sqdist (grid i j) kp \<le> dist_thresh_sq g) 1 k)"
  by (simp add: update_plateau_def Let_def plateau_dist split: option.splits)

lemma update_plateau_no_error: "snd (update_plateau g H W grid kp v) = None"
  by (simp add: update_plateau_def Let_def)

lemma update_gaussian_mask_raises:
  "0 < H \<Longrightarrow> 0 < W \<Longrightarrow> locref_mask v = Some k \<Longrightarrow>
   snd (update_gaussian g H W grid kp v) = Some ValueError
   \<and> locref_mask (fst (update_gaussian g H W grid kp v)) = Some k"
  by (auto simp add: update_gaussian_def Let_def ndarray_bool_def split: option.splits)

lemma update_gaussian_no_mask:
  "locref_mask v = None \<Longrightarrow> snd (update_gaussian g H W grid kp v) = None"
  by (auto simp add: update_gaussian_def Let_def ndarray_bool_def split: option.splits)

lemma update_heatmap:
  "heatmap (fst (update g H W grid kp v)) i j =
     (if i < H \<and> j < W then merge_cell g (grid i j) kp (heatmap v i j) else heatmap v i j)"
  by (simp add: update_def merge_cell_def update_gaussian_heatmap update_plateau_heatmap
           split: kernel.splits)

subsection \<open>The heatmap after the loops, cell by cell\<close>

text \<open>
  A cell of channel \<open>c\<close> of image \<open>b\<close> is changed by the keypoints of group \<open>c\<close> of
  image \<open>b\<close> only, each merging its response into the value the cell has.
\<close>

lemma put_heatmap_shape: "shape4 (put_heatmap b c hm a) = shape4 a"
  by (simp add: put_heatmap_def split: prod.splits)

lemma put_heatmap_at:
  "shape4 a = (B, H, W, C) \<Longrightarrow>
   at4 (put_heatmap b c hm a) b' i j c' =
     (if b' = b \<and> c' = c \<and> i < H \<and> j < W then hm i j else at4 a b' i j c')"
  by (simp add: put_heatmap_def)

lemma keypoint_step_skip:
  "\<not> annotated kp \<Longrightarrow> keypoint_step g grid b c kp bufs = Inr bufs"
  by (auto simp add: keypoint_step_def annotated_def Let_def)

lemma keypoint_step_heatmap:
  assumes "keypoint_step g grid b c kp bufs = Inr bufs'"
      and "shape4 (heatmap_b bufs) = (B, H, W, C)"
  shows "shape4 (heatmap_b bufs') = (B, H, W, C)
     \<and> at4 (heatmap_b bufs') b' i j c' =
        (if (b' = b \<and> c' = c \<and> i < H \<and> j < W) \<and> annotated kp
         then merge_cell g (as_float grid i j) (snd kp, fst kp) (at4 (heatmap_b bufs) b' i j c')
         else at4 (heatmap_b bufs) b' i j c')"
proof (cases "annotated kp")
  case False
  with assms show ?thesis by (simp add: keypoint_step_skip)
next
  case True
  then have pos: "\<not> (snd kp \<le> 0 \<or> fst kp \<le> 0)" by (simp add: annotated_def)
  from assms pos obtain lm lk v where
    upd: "update g H W (as_float grid) (snd kp, fst kp)
            \<lparr>heatmap = (\<lambda>i j. at4 (heatmap_b bufs) b i j c), locref_map = lm, locref_mask = lk\<rparr>
          = (v, None)"
    and res: "bufs' = write_back b c v bufs"
    by (auto simp add: keypoint_step_def Let_def split: if_splits sum.splits option.splits prod.splits)
  have hm: "heatmap v i j =
      (if i < H \<and> j < W
       then merge_cell g (as_float grid i j) (snd kp, fst kp) (at4 (heatmap_b bufs) b i j c)
       else at4 (heatmap_b bufs) b i j c)"
    using update_heatmap [of g H W "as_float grid" "(snd kp, fst kp)"
        "\<lparr>heatmap = (\<lambda>i j. at4 (heatmap_b bufs) b i j c), locref_map = lm, locref_mask = lk\<rparr>" i j]
    by (simp add: upd)
  show ?thesis
    using True assms(2) hm
    by (simp add: res write_back_def put_heatmap_shape put_heatmap_at)
qed

lemma foldM_obs:
  assumes step: "\<And>x s s'. f x s = Inr s' \<Longrightarrow> I s \<Longrightarrow>
                   I s' \<and> obs s' = (if P x then F x (obs s) else obs s)"
  shows "foldM f xs s = Inr s' \<Longrightarrow> I s \<Longrightarrow>
           I s' \<and> obs s' = fold (\<lambda>x v. if P x then F x v else v) xs (obs s)"
proof (induction xs arbitrary: s)
  case Nil
  then show ?case by simp
next
  case (Cons x xs)
  from Cons.prems(1) obtain s1 where s1: "f x s = Inr s1" and rest: "foldM f xs s1 = Inr s'"
    by (auto split: sum.splits)
  from step [OF s1 Cons.prems(2)] have I1: "I s1"
    and o1: "obs s1 = (if P x then F x (obs s) else obs s)" by simp_all
  from Cons.IH [OF rest I1] show ?case by (simp add: o1)
qed

lemma fold_skip: "fold (\<lambda>x v. v) xs v0 = v0"
  by (induction xs) simp_all

lemma fold_single:
  "distinct xs \<Longrightarrow>
   fold (\<lambda>x v. if x = c \<and> Q then G x v else v) xs v0 = (if c \<in> set xs \<and> Q then G c v0 else v0)"
proof (induction xs arbitrary: v0)
  case Nil
  then show ?case by simp
next
  case (Cons x xs)
  then show ?case by (cases "x = c") auto
qed

lemma merge_list_fold:
  "fold (\<lambda>s v. if annotated (k s) then merge_cell g cell (snd (k s), fst (k s)) v else v) xs v0
     = merge_list g cell (map k xs) v0"
  by (simp add: merge_list_def fold_map comp_def)

lemma group_loop_heatmap:
  assumes "group_loop g grid cs b c bufs = Inr bufs'"
      and "shape4 (heatmap_b bufs) = (B, H, W, C)"
      and "c_shape cs = (n0, n1, n2)"
  shows "shape4 (heatmap_b bufs') = (B, H, W, C)
     \<and> at4 (heatmap_b bufs') b' i j c' =
        (if b' = b \<and> c' = c \<and> i < H \<and> j < W
         then merge_list g (as_float grid i j) (map (c_at cs b c) [0..<n2])
                (at4 (heatmap_b bufs) b' i j c')
         else at4 (heatmap_b bufs) b' i j c')"
proof -
  let ?f = "\<lambda>s. keypoint_step g grid b c (c_at cs b c s)"
  let ?I = "\<lambda>bufs. shape4 (heatmap_b bufs) = (B, H, W, C)"
  let ?obs = "\<lambda>bufs. at4 (heatmap_b bufs) b' i j c'"
  let ?P = "\<lambda>s. (b' = b \<and> c' = c \<and> i < H \<and> j < W) \<and> annotated (c_at cs b c s)"
  let ?F = "\<lambda>s. merge_cell g (as_float grid i j) (snd (c_at cs b c s), fst (c_at cs b c s))"
  have run: "foldM ?f [0..<n2] bufs = Inr bufs'"
    using assms(1,3) by (simp add: group_loop_def)
  have *: "?I bufs' \<and> ?obs bufs' = fold (\<lambda>x v. if ?P x then ?F x v else v) [0..<n2] (?obs bufs)"
    by (rule foldM_obs [where f = ?f and I = ?I and obs = ?obs and P = ?P and F = ?F,
          OF _ run assms(2)]) (rule keypoint_step_heatmap, assumption+)
  show ?thesis
  proof (cases "b' = b \<and> c' = c \<and> i < H \<and> j < W")
    case True
    with * show ?thesis by (simp add: merge_list_fold)
  next
    case False
    with * show ?thesis by (auto simp add: fold_skip)
  qed
qed

lemma image_loop_heatmap:
  assumes "image_loop g grid cs b bufs = Inr bufs'"
      and "shape4 (heatmap_b bufs) = (B, H, W, C)"
      and "c_shape cs = (n0, n1, n2)"
  shows "shape4 (heatmap_b bufs') = (B, H, W, C)
     \<and> at4 (heatmap_b bufs') b' i j c' =
        (if b' = b \<and> c' < n1 \<and> i < H \<and> j < W
         then merge_list g (as_float grid i j) (map (c_at cs b c') [0..<n2])
                (at4 (heatmap_b bufs) b' i j c')
         else at4 (heatmap_b bufs) b' i j c')"
proof -
  let ?f = "\<lambda>c. group_loop g grid cs b c"
  let ?I = "\<lambda>bufs. shape4 (heatmap_b bufs) = (B, H, W, C)"
  let ?obs = "\<lambda>bufs. at4 (heatmap_b bufs) b' i j c'"
  let ?Q = "b' = b \<and> i < H \<and> j < W"
  let ?G = "\<lambda>c. merge_list g (as_float grid i j) (map (c_at cs b c) [0..<n2])"
  have run: "foldM ?f [0..<n1] bufs = Inr bufs'"
    using assms(1,3) by (simp add: image_loop_def split: if_splits)
  have step: "\<And>x s s'. ?f x s = Inr s' \<Longrightarrow> ?I s \<Longrightarrow>
                 ?I s' \<and> ?obs s' = (if x = c' \<and> ?Q then ?G x (?obs s) else ?obs s)"
    using group_loop_heatmap [OF _ _ assms(3), where b' = b' and i = i and j = j and c' = c']
    by auto
  have "?I bufs' \<and> ?obs bufs'
          = fold (\<lambda>x v. if x = c' \<and> ?Q then ?G x v else v) [0..<n1] (?obs bufs)"
    by (rule foldM_obs [where f = ?f and I = ?I and obs = ?obs, OF step run assms(2)])
  then show ?thesis
    by (simp add: fold_single)
qed

lemma batch_loop_heatmap:
  assumes "batch_loop g grid cs batch_size bufs = Inr bufs'"
      and "shape4 (heatmap_b bufs) = (B, H, W, C)"
      and "c_shape cs = (n0, n1, n2)"
  shows "shape4 (heatmap_b bufs') = (B, H, W, C)
     \<and> at4 (heatmap_b bufs') b' i j c' =
        (if b' < batch_size \<and> c' < n1 \<and> i < H \<and> j < W
         then merge_list g (as_float grid i j) (map (c_at cs b' c') [0..<n2])
                (at4 (heatmap_b bufs) b' i j c')
         else at4 (heatmap_b bufs) b' i j c')"
proof -
  let ?f = "\<lambda>b. image_loop g grid cs b"
  let ?I = "\<lambda>bufs. shape4 (heatmap_b bufs) = (B, H, W, C)"
  let ?obs = "\<lambda>bufs. at4 (heatmap_b bufs) b' i j c'"
  let ?Q = "c' < n1 \<and> i < H \<and> j < W"
  let ?G = "\<lambda>b. merge_list g (as_float grid i j) (map (c_at cs b c') [0..<n2])"
  have run: "foldM ?f [0..<batch_size] bufs = Inr bufs'"
    using assms(1) by (simp add: batch_loop_def)
  have step: "\<And>x s s'. ?f x s = Inr s' \<Longrightarrow> ?I s \<Longrightarrow>
                 ?I s' \<and> ?obs s' = (if x = b' \<and> ?Q then ?G x (?obs s) else ?obs s)"
    using image_loop_heatmap [OF _ _ assms(3), where b' = b' and i = i and j = j and c' = c']
    by auto
  have "?I bufs' \<and> ?obs bufs'
          = fold (\<lambda>x v. if x = b' \<and> ?Q then ?G x v else v) [0..<batch_size] (?obs bufs)"
    by (rule foldM_obs [where f = ?f and I = ?I and obs = ?obs, OF step run assms(2)])
  then show ?thesis
    by (simp add: fold_single)
qed

lemma new_buffers_shapes: "buffer_shapes g B H W (new_buffers g B H W)"
  by (simp add: buffer_shapes_def new_buffers_def zeros4_def)

lemma new_buffers_heatmap_at: "at4 (heatmap_b (new_buffers g B H W)) b i j c = 0"
  by (simp add: new_buffers_def zeros4_def)

lemma transpose_0312_shape:
  "shape4 a = (n0, n1, n2, n3) \<Longrightarrow> shape4 (transpose_0312 a) = (n0, n3, n1, n2)"
  by (simp add: transpose_0312_def)

lemma transpose_0312_at: "at4 (transpose_0312 a) b c h w = at4 a b h w c"
  by (simp add: transpose_0312_def split: prod.splits)

lemma forward_Inr:
  "forward g inputs_shape outputs kps = Inr t \<Longrightarrow>
     \<exists>bufs. forward_loops g inputs_shape outputs kps = Inr bufs \<and> assemble g outputs bufs = Inr t"
  by (auto simp add: forward_def split: sum.splits)

lemma assemble_heatmap:
  "assemble g outputs bufs = Inr t \<Longrightarrow> heatmap_target t = transpose_0312 (heatmap_b bufs)"
  by (auto simp add: assemble_def Let_def split: if_splits option.splits)

lemma forward_loops_Inr:
  assumes "forward_loops g (B, ch, ih, iw) outputs kps = Inr bufs"
  obtains o0 o1 H W cs where "outputs ''heatmap'' = Some (o0, o1, H, W)" and "0 < H" and "0 < W"
    and "coords_of g B kps = Inr cs"
    and "batch_loop g (grid_of (real ih / real H) (real iw / real W)) cs B (new_buffers g B H W)
           = Inr bufs"
  using assms
  by (auto simp add: forward_loops_def Let_def split: option.splits if_splits sum.splits)

lemma forward_loops_heatmap:
  assumes "forward_loops g (B, ch, ih, iw) outputs kps = Inr bufs"
      and "outputs ''heatmap'' = Some (o0, o1, H, W)"
      and "coords_of g B kps = Inr cs"
      and "c_shape cs = (n0, n1, n2)"
  shows "shape4 (heatmap_b bufs) = (B, H, W, num_heatmaps g)
     \<and> at4 (heatmap_b bufs) b i j c =
         (if b < B \<and> c < n1 \<and> i < H \<and> j < W
          then merge_list g (as_float (grid_of (real ih / real H) (real iw / real W)) i j)
                 (map (c_at cs b c) [0..<n2]) 0
          else 0)"
proof -
  from assms(1) assms(2) assms(3)
  have run: "batch_loop g (grid_of (real ih / real H) (real iw / real W)) cs B
               (new_buffers g B H W) = Inr bufs"
    by (auto elim!: forward_loops_Inr)
  have shp: "shape4 (heatmap_b (new_buffers g B H W)) = (B, H, W, num_heatmaps g)"
    by (simp add: new_buffers_def zeros4_def)
  from batch_loop_heatmap [OF run shp assms(4), of b i j c]
  show ?thesis by (simp add: new_buffers_heatmap_at)
qed

lemma forward_heatmap:
  assumes "forward g (B, ch, ih, iw) outputs kps = Inr t"
      and "outputs ''heatmap'' = Some (o0, o1, H, W)"
      and "coords_of g B kps = Inr cs"
      and "c_shape cs = (n0, n1, n2)"
  shows "shape4 (heatmap_target t) = (B, num_heatmaps g, H, W)
     \<and> at4 (heatmap_target t) b c i j =
         (if b < B \<and> c < n1 \<and> i < H \<and> j < W
          then merge_list g (as_float (grid_of (real ih / real H) (real iw / real W)) i j)
                 (map (c_at cs b c) [0..<n2]) 0
          else 0)"
proof -
  from forward_Inr [OF assms(1)] obtain bufs where
    r: "forward_loops g (B, ch, ih, iw) outputs kps = Inr bufs" and a: "assemble g outputs bufs = Inr t"
    by blast
  from forward_loops_heatmap [OF r assms(2) assms(3) assms(4), of b i j c] assemble_heatmap [OF a]
  show ?thesis by (simp add: transpose_0312_shape transpose_0312_at)
qed

subsection \<open>The shapes of the buffers\<close>

lemma foldM_inv:
  assumes step: "\<And>x s s'. f x s = Inr s' \<Longrightarrow> I s \<Longrightarrow> I s'"
  shows "foldM f xs s = Inr s' \<Longrightarrow> I s \<Longrightarrow> I s'"
proof (induction xs arbitrary: s)
  case Nil
  then show ?case by simp
next
  case (Cons x xs)
  from Cons.prems(1) obtain s1 where s1: "f x s = Inr s1" and rest: "foldM f xs s1 = Inr s'"
    by (auto split: sum.splits)
  from Cons.IH [OF rest step [OF s1 Cons.prems(2)]] show ?case .
qed

lemma foldM_returns:
  assumes step: "\<And>x s. x \<in> set xs \<Longrightarrow> I s \<Longrightarrow> \<exists>s'. f x s = Inr s' \<and> I s'"
  shows "I s \<Longrightarrow> \<exists>s'. foldM f xs s = Inr s' \<and> I s'"
  using step
proof (induction xs arbitrary: s)
  case Nil
  then show ?case by simp
next
  case (Cons x xs)
  from Cons.prems(2) [of x s] Cons.prems(1) obtain s1 where s1: "f x s = Inr s1" and I1: "I s1"
    by auto
  have "\<exists>s'. foldM f xs s1 = Inr s' \<and> I s'"
    by (rule Cons.IH [OF I1]) (simp add: Cons.prems(2))
  then show ?case by (simp add: s1)
qed

lemma foldM_decide:
  assumes step: "\<And>x s. x \<in> set xs \<Longrightarrow> I s \<Longrightarrow> f x s = (if P x then Inl e else Inr s)"
  shows "I s \<Longrightarrow> foldM f xs s = (if \<exists>x\<in>set xs. P x then Inl e else Inr s)"
  using step
proof (induction xs arbitrary: s)
  case Nil
  then show ?case by simp
next
  case (Cons x xs)
  have hd: "f x s = (if P x then Inl e else Inr s)"
    by (rule Cons.prems(2)) (simp_all add: Cons.prems(1))
  have tl: "foldM f xs s = (if \<exists>x\<in>set xs. P x then Inl e else Inr s)"
    by (rule Cons.IH [OF Cons.prems(1)]) (simp add: Cons.prems(2))
  show ?case by (simp add: hd tl)
qed

lemma put_locref_shape: "shape4 (put_locref b c m a) = shape4 a"
  by (simp add: put_locref_def split: prod.splits)

lemma write_back_shapes:
  "buffer_shapes g B H W bufs \<Longrightarrow> buffer_shapes g B H W (write_back b c v bufs)"
  by (auto simp add: buffer_shapes_def write_back_def put_heatmap_shape put_locref_shape
           split: option.splits)

lemma keypoint_step_shapes:
  "keypoint_step g grid b c kp bufs = Inr bufs' \<Longrightarrow> buffer_shapes g B H W bufs
     \<Longrightarrow> buffer_shapes g B H W bufs'"
  by (auto simp add: keypoint_step_def Let_def write_back_shapes
           split: if_splits sum.splits option.splits prod.splits)

lemma group_loop_shapes:
  "group_loop g grid cs b c bufs = Inr bufs' \<Longrightarrow> buffer_shapes g B H W bufs
     \<Longrightarrow> buffer_shapes g B H W bufs'"
  unfolding group_loop_def
  by (auto split: prod.splits elim!: foldM_inv [rotated] intro: keypoint_step_shapes)

lemma image_loop_shapes:
  "image_loop g grid cs b bufs = Inr bufs' \<Longrightarrow> buffer_shapes g B H W bufs
     \<Longrightarrow> buffer_shapes g B H W bufs'"
  unfolding image_loop_def
  by (auto split: prod.splits if_splits elim!: foldM_inv [rotated] intro: group_loop_shapes)

lemma batch_loop_shapes:
  "batch_loop g grid cs n bufs = Inr bufs' \<Longrightarrow> buffer_shapes g B H W bufs
     \<Longrightarrow> buffer_shapes g B H W bufs'"
  unfolding batch_loop_def
  by (auto elim!: foldM_inv [rotated] intro: image_loop_shapes)

lemma forward_loops_shapes:
  assumes "forward_loops g (B, ch, ih, iw) outputs kps = Inr bufs"
      and "outputs ''heatmap'' = Some (o0, o1, H, W)"
  shows "buffer_shapes g B H W bufs"
  using assms
  by (auto elim!: forward_loops_Inr intro: batch_loop_shapes new_buffers_shapes)


subsection \<open>When forward returns and when it raises\<close>

lemma update_no_error:
  "kernel_of g = HeatmapPlateauGenerator \<or> locref_mask v = None
     \<Longrightarrow> snd (update g H W grid kp v) = None"
  by (auto simp add: update_def update_plateau_no_error update_gaussian_no_mask
           split: kernel.splits)

lemma keypoint_step_annotated:
  assumes "annotated kp" and "buffer_shapes g B H W bufs" and "b < B" and "c < num_heatmaps g"
      and "get_locref g (locref_map_b bufs) b c = Inr lm"
      and "get_locref g (locref_mask_b bufs) b c = Inr lk"
      and "update g H W (as_float grid) (snd kp, fst kp)
             \<lparr>heatmap = (\<lambda>i j. at4 (heatmap_b bufs) b i j c), locref_map = lm, locref_mask = lk\<rparr>
           = (v, e)"
  shows "keypoint_step g grid b c kp bufs =
           (case e of Some err \<Rightarrow> Inl err | None \<Rightarrow> Inr (write_back b c v bufs))"
  using assms
  by (simp add: keypoint_step_def Let_def annotated_def buffer_shapes_def)

lemma get_locref_shapes:
  assumes "buffer_shapes g B H W bufs" and "b < B"
  shows "\<exists>lm lk. get_locref g (locref_map_b bufs) b c = Inr lm
            \<and> get_locref g (locref_mask_b bufs) b c = Inr lk
            \<and> (generate_locref g \<longleftrightarrow> lk \<noteq> None)"
  using assms
  by (auto simp add: buffer_shapes_def get_locref_def Let_def split: option.splits)

lemma keypoint_step_returns:
  assumes "buffer_shapes g B H W bufs" and "b < B" and "c < num_heatmaps g"
      and "kernel_of g = HeatmapPlateauGenerator \<or> \<not> generate_locref g"
  shows "\<exists>bufs'. keypoint_step g grid b c kp bufs = Inr bufs'"
proof (cases "annotated kp")
  case False
  then show ?thesis by (simp add: keypoint_step_skip)
next
  case True
  from get_locref_shapes [OF assms(1,2), of c] obtain lm lk where
    lm: "get_locref g (locref_map_b bufs) b c = Inr lm" and
    lk: "get_locref g (locref_mask_b bufs) b c = Inr lk" and
    gl: "generate_locref g \<longleftrightarrow> lk \<noteq> None" by blast
  let ?v = "\<lparr>heatmap = (\<lambda>i j. at4 (heatmap_b bufs) b i j c), locref_map = lm, locref_mask = lk\<rparr>"
  have "snd (update g H W (as_float grid) (snd kp, fst kp) ?v) = None"
    using assms(4) gl by (intro update_no_error) auto
  then obtain v where "update g H W (as_float grid) (snd kp, fst kp) ?v = (v, None)"
    by (metis prod.collapse)
  from keypoint_step_annotated [OF True assms(1,2,3) lm lk this] show ?thesis by simp
qed

lemma keypoint_step_gaussian_locref:
  assumes "buffer_shapes g B H W bufs" and "b < B" and "c < num_heatmaps g"
      and "0 < H" and "0 < W"
      and "kernel_of g = HeatmapGaussianGenerator" and "generate_locref g"
  shows "keypoint_step g grid b c kp bufs = (if annotated kp then Inl ValueError else Inr bufs)"
proof (cases "annotated kp")
  case False
  then show ?thesis by (simp add: keypoint_step_skip)
next
  case True
  from get_locref_shapes [OF assms(1,2), of c] assms(7) obtain lm lk k where
    lm: "get_locref g (locref_map_b bufs) b c = Inr lm" and
    lk: "get_locref g (locref_mask_b bufs) b c = Inr lk" and
    k: "lk = Some k" by auto
  let ?v = "\<lparr>heatmap = (\<lambda>i j. at4 (heatmap_b bufs) b i j c), locref_map = lm, locref_mask = lk\<rparr>"
  have "snd (update g H W (as_float grid) (snd kp, fst kp) ?v) = Some ValueError"
    using assms(4,5,6) k by (simp add: update_def update_gaussian_mask_raises)
  then obtain v where "update g H W (as_float grid) (snd kp, fst kp) ?v = (v, Some ValueError)"
    by (metis prod.collapse)
  from keypoint_step_annotated [OF True assms(1,2,3) lm lk this] True show ?thesis by simp
qed

lemma group_loop_returns:
  assumes "buffer_shapes g B H W bufs" and "b < B" and "c < num_heatmaps g"
      and "kernel_of g = HeatmapPlateauGenerator \<or> \<not> generate_locref g"
  shows "\<exists>bufs'. group_loop g grid cs b c bufs = Inr bufs' \<and> buffer_shapes g B H W bufs'"
proof -
  obtain n0 n1 n2 where shp: "c_shape cs = (n0, n1, n2)" by (cases "c_shape cs") auto
  have "\<exists>bufs'. foldM (\<lambda>s. keypoint_step g grid b c (c_at cs b c s)) [0..<n2] bufs = Inr bufs'
          \<and> buffer_shapes g B H W bufs'"
  proof (rule foldM_returns [where I = "buffer_shapes g B H W", OF _ assms(1)])
    fix x s
    assume I: "buffer_shapes g B H W s"
    from keypoint_step_returns [OF I assms(2,3,4)] obtain s'
      where s': "keypoint_step g grid b c (c_at cs b c x) s = Inr s'" by blast
    with keypoint_step_shapes [OF s' I]
    show "\<exists>s'. keypoint_step g grid b c (c_at cs b c x) s = Inr s' \<and> buffer_shapes g B H W s'"
      by blast
  qed
  then show ?thesis by (simp add: group_loop_def shp)
qed

lemma image_loop_returns:
  assumes "buffer_shapes g B H W bufs" and "c_shape cs = (n0, n1, n2)"
      and "b < n0" and "b < B" and "n1 \<le> num_heatmaps g"
      and "kernel_of g = HeatmapPlateauGenerator \<or> \<not> generate_locref g"
  shows "\<exists>bufs'. image_loop g grid cs b bufs = Inr bufs' \<and> buffer_shapes g B H W bufs'"
proof -
  have "\<exists>bufs'. foldM (\<lambda>c. group_loop g grid cs b c) [0..<n1] bufs = Inr bufs'
          \<and> buffer_shapes g B H W bufs'"
  proof (rule foldM_returns [where I = "buffer_shapes g B H W", OF _ assms(1)])
    fix x s
    assume "x \<in> set [0..<n1]" and I: "buffer_shapes g B H W s"
    then have "x < num_heatmaps g" using assms(5) by simp
    from group_loop_returns [OF I assms(4) this assms(6)]
    show "\<exists>s'. group_loop g grid cs b x s = Inr s' \<and> buffer_shapes g B H W s'" .
  qed
  then show ?thesis using assms(2,3) by (simp add: image_loop_def)
qed

lemma batch_loop_returns:
  assumes "buffer_shapes g B H W bufs" and "c_shape cs = (n0, n1, n2)"
      and "n \<le> n0" and "n \<le> B" and "n1 \<le> num_heatmaps g"
      and "kernel_of g = HeatmapPlateauGenerator \<or> \<not> generate_locref g"
  shows "\<exists>bufs'. batch_loop g grid cs n bufs = Inr bufs' \<and> buffer_shapes g B H W bufs'"
  unfolding batch_loop_def
proof (rule foldM_returns [where I = "buffer_shapes g B H W", OF _ assms(1)])
  fix x s
  assume "x \<in> set [0..<n]" and I: "buffer_shapes g B H W s"
  then have "x < n0" and "x < B" using assms(3,4) by simp_all
  from image_loop_returns [OF I assms(2) this assms(5,6)]
  show "\<exists>s'. image_loop g grid cs x s = Inr s' \<and> buffer_shapes g B H W s'" .
qed

lemma assemble_returns:
  assumes "buffer_shapes g B H W bufs" and "generate_locref g \<longrightarrow> outputs ''locref'' \<noteq> None"
  shows "\<exists>t. assemble g outputs bufs = Inr t"
  using assms
  by (auto simp add: assemble_def Let_def buffer_shapes_def split: option.splits)

lemma forward_returns:
  assumes "outputs ''heatmap'' = Some (o0, o1, H, W)" and "0 < H" and "0 < W"
      and "generate_locref g \<longrightarrow> outputs ''locref'' \<noteq> None"
      and "coords_of g B kps = Inr cs" and "c_shape cs = (n0, n1, n2)"
      and "B \<le> n0" and "n1 \<le> num_heatmaps g"
      and "kernel_of g = HeatmapPlateauGenerator \<or> \<not> generate_locref g"
  shows "\<exists>t. forward g (B, ch, ih, iw) outputs kps = Inr t"
proof -
  from batch_loop_returns [OF new_buffers_shapes assms(6,7) order_refl assms(8,9)]
  obtain bufs where
    run: "batch_loop g (grid_of (real ih / real H) (real iw / real W)) cs B (new_buffers g B H W)
            = Inr bufs"
    and shp: "buffer_shapes g B H W bufs" by blast
  have r: "forward_loops g (B, ch, ih, iw) outputs kps = Inr bufs"
    using assms(1,2,3,5) run by (simp add: forward_loops_def)
  from assemble_returns [of g B H W bufs outputs] shp assms(4) r
  show ?thesis by (auto simp add: forward_def)
qed

lemma ex_upt: "(\<exists>x\<in>{0..<n::nat}. P x) \<longleftrightarrow> (\<exists>x<n. P x)"
  by auto

lemma group_loop_gaussian_locref:
  assumes "buffer_shapes g B H W bufs" and "b < B" and "c < num_heatmaps g"
      and "0 < H" and "0 < W"
      and "kernel_of g = HeatmapGaussianGenerator" and "generate_locref g"
      and "c_shape cs = (n0, n1, n2)"
  shows "group_loop g grid cs b c bufs =
           (if \<exists>s<n2. annotated (c_at cs b c s) then Inl ValueError else Inr bufs)"
proof -
  have "foldM (\<lambda>s. keypoint_step g grid b c (c_at cs b c s)) [0..<n2] bufs =
          (if \<exists>s\<in>set [0..<n2]. annotated (c_at cs b c s) then Inl ValueError else Inr bufs)"
    by (rule foldM_decide [where I = "buffer_shapes g B H W", OF _ assms(1)])
       (rule keypoint_step_gaussian_locref [OF _ assms(2,3,4,5,6,7)])
  then show ?thesis by (simp add: group_loop_def assms(8) ex_upt)
qed

lemma image_loop_gaussian_locref:
  assumes "buffer_shapes g B H W bufs" and "b < B" and "n1 \<le> num_heatmaps g"
      and "0 < H" and "0 < W"
      and "kernel_of g = HeatmapGaussianGenerator" and "generate_locref g"
      and "c_shape cs = (n0, n1, n2)" and "b < n0"
  shows "image_loop g grid cs b bufs =
           (if \<exists>c<n1. \<exists>s<n2. annotated (c_at cs b c s) then Inl ValueError else Inr bufs)"
proof -
  have "foldM (\<lambda>c. group_loop g grid cs b c) [0..<n1] bufs =
          (if \<exists>c\<in>set [0..<n1]. \<exists>s<n2. annotated (c_at cs b c s) then Inl ValueError
           else Inr bufs)"
  proof (rule foldM_decide [where I = "buffer_shapes g B H W", OF _ assms(1)])
    fix x s
    assume "x \<in> set [0..<n1]" and I: "buffer_shapes g B H W s"
    then have "x < num_heatmaps g" using assms(3) by simp
    from group_loop_gaussian_locref [OF I assms(2) this assms(4,5,6,7,8)]
    show "group_loop g grid cs b x s =
            (if \<exists>s<n2. annotated (c_at cs b x s) then Inl ValueError else Inr s)" .
  qed
  then show ?thesis using assms(8,9) by (simp add: image_loop_def ex_upt)
qed

lemma batch_loop_gaussian_locref:
  assumes "buffer_shapes g B H W bufs" and "n \<le> B" and "n1 \<le> num_heatmaps g"
      and "0 < H" and "0 < W"
      and "kernel_of g = HeatmapGaussianGenerator" and "generate_locref g"
      and "c_shape cs = (n0, n1, n2)" and "n \<le> n0"
  shows "batch_loop g grid cs n bufs =
           (if \<exists>b<n. \<exists>c<n1. \<exists>s<n2. annotated (c_at cs b c s) then Inl ValueError
            else Inr bufs)"
proof -
  have "foldM (\<lambda>b. image_loop g grid cs b) [0..<n] bufs =
          (if \<exists>b\<in>set [0..<n]. \<exists>c<n1. \<exists>s<n2. annotated (c_at cs b c s) then Inl ValueError
           else Inr bufs)"
  proof (rule foldM_decide [where I = "buffer_shapes g B H W", OF _ assms(1)])
    fix x s
    assume "x \<in> set [0..<n]" and I: "buffer_shapes g B H W s"
    then have "x < B" and "x < n0" using assms(2,9) by simp_all
    from image_loop_gaussian_locref [OF I this(1) assms(3,4,5,6,7,8) this(2)]
    show "image_loop g grid cs x s =
            (if \<exists>c<n1. \<exists>s<n2. annotated (c_at cs x c s) then Inl ValueError else Inr s)" .
  qed
  then show ?thesis by (simp add: batch_loop_def ex_upt)
qed

lemma forward_gaussian_locref_raises:
  assumes "outputs ''heatmap'' = Some (o0, o1, H, W)" and "0 < H" and "0 < W"
      and "coords_of g B kps = Inr cs" and "c_shape cs = (n0, n1, n2)"
      and "B \<le> n0" and "n1 \<le> num_heatmaps g"
      and "kernel_of g = HeatmapGaussianGenerator" and "generate_locref g"
      and "b < B" and "c < n1" and "s < n2" and "annotated (c_at cs b c s)"
  shows "forward g (B, ch, ih, iw) outputs kps = Inl ValueError"
proof -
  have "batch_loop g (grid_of (real ih / real H) (real iw / real W)) cs B (new_buffers g B H W)
          = Inl ValueError"
    using batch_loop_gaussian_locref [OF new_buffers_shapes order_refl assms(7,2,3,8,9,5,6)]
      assms(10-13)
    by auto
  then have "forward_loops g (B, ch, ih, iw) outputs kps = Inl ValueError"
    using assms(1,2,3,4) by (simp add: forward_loops_def)
  then show ?thesis by (simp add: forward_def)
qed

subsection \<open>Batches without annotated keypoints\<close>

lemma foldM_skip:
  assumes "\<And>x s. x \<in> set xs \<Longrightarrow> f x s = Inr s"
  shows "foldM f xs s = Inr s"
  using foldM_decide [where I = "\<lambda>_. True" and P = "\<lambda>_. False" and f = f and xs = xs and s = s]
    assms by simp

lemma batch_loop_skip:
  assumes "c_shape cs = (n0, n1, n2)" and "n \<le> n0"
      and "\<And>b c s. b < n \<Longrightarrow> c < n1 \<Longrightarrow> s < n2 \<Longrightarrow> \<not> annotated (c_at cs b c s)"
  shows "batch_loop g grid cs n bufs = Inr bufs"
  unfolding batch_loop_def
proof (rule foldM_skip)
  fix b s
  assume "b \<in> set [0..<n]"
  then have b: "b < n" by simp
  have "foldM (\<lambda>c. group_loop g grid cs b c) [0..<n1] s = Inr s"
  proof (rule foldM_skip)
    fix c s'
    assume "c \<in> set [0..<n1]"
    then have c: "c < n1" by simp
    have "foldM (\<lambda>k. keypoint_step g grid b c (c_at cs b c k)) [0..<n2] s' = Inr s'"
      by (rule foldM_skip) (simp add: keypoint_step_skip assms(3) b c)
    then show "group_loop g grid cs b c s' = Inr s'"
      by (simp add: group_loop_def assms(1))
  qed
  then show "image_loop g grid cs b s = Inr s"
    using assms(1,2) b by (simp add: image_loop_def)
qed

lemma transpose_zeros4: "transpose_0312 (zeros4 (n0, n1, n2, n3)) = zeros4 (n0, n3, n1, n2)"
  by (simp add: transpose_0312_def zeros4_def)

subsection \<open>The grid holds the integer part of the cell centres\<close>

lemma grid_of_floor:
  assumes "0 \<le> stride_y" and "0 \<le> stride_x"
  shows "grid_of stride_y stride_x i j =
           (\<lfloor>real i * stride_y + stride_y / 2\<rfloor>, \<lfloor>real j * stride_x + stride_x / 2\<rfloor>)"
  using assms by (simp add: grid_of_def mgrid_def trunc_def)

lemma grid_of_exact_iff:
  assumes "0 \<le> stride_y" and "0 \<le> stride_x"
  shows "as_float (grid_of stride_y stride_x) i j
           = (real i * stride_y + stride_y / 2, real j * stride_x + stride_x / 2)
         \<longleftrightarrow> real i * stride_y + stride_y / 2 \<in> \<int> \<and> real j * stride_x + stride_x / 2 \<in> \<int>"
  using assms
  by (auto simp add: as_float_def grid_of_floor floor_eq_iff Ints_def
        intro: of_int_floor_cancel [THEN iffD2])

subsection \<open>Bounds and the merge of two keypoints\<close>

lemma sqrt_le_iff_sq:
  assumes "0 \<le> (t::real)"
  shows "sqrt a \<le> t \<longleftrightarrow> a \<le> t\<^sup>2"
proof -
  have "sqrt (t\<^sup>2) = t" using assms by simp
  then have "sqrt a \<le> t \<longleftrightarrow> sqrt a \<le> sqrt (t\<^sup>2)" by simp
  then show ?thesis by (simp only: real_sqrt_le_iff)
qed

lemma merge_cell_bounds:
  assumes "0 \<le> h" and "h \<le> 1"
  shows "0 \<le> merge_cell g cell kp h \<and> merge_cell g cell kp h \<le> 1"
proof (cases "kernel_of g")
  case HeatmapGaussianGenerator
  have "- sqdist cell kp / (2 * (std g)\<^sup>2) \<le> 0"
    by (simp add: sqdist_nonneg divide_nonneg_nonneg)
  then have "exp (- sqdist cell kp / (2 * (std g)\<^sup>2)) \<le> 1" by simp
  with assms HeatmapGaussianGenerator show ?thesis by (simp add: merge_cell_def max_def)
next
  case HeatmapPlateauGenerator
  with assms show ?thesis by (simp add: merge_cell_def)
qed

lemma merge_list_bounds:
  "0 \<le> h \<Longrightarrow> h \<le> 1 \<Longrightarrow> 0 \<le> merge_list g cell kps h \<and> merge_list g cell kps h \<le> 1"
  unfolding merge_list_def
proof (induction kps arbitrary: h)
  case Nil
  then show ?case by simp
next
  case (Cons kp kps)
  then show ?case using merge_cell_bounds [of h g cell "(snd kp, fst kp)"] by simp
qed

lemma coords_of_Rank4:
  "coords_of g B (Rank4 (n, S, K) f) =
     Inr (case heatmap_mode g of
            INDIVIDUAL \<Rightarrow> \<lparr>c_shape = (n, S, K), c_at = f\<rparr>
          | KEYPOINT \<Rightarrow> \<lparr>c_shape = (n, K, S), c_at = (\<lambda>b t s. f b s t)\<rparr>)"
  by (simp add: coords_of_def add_individual_dim_def transpose_0213_def split: Mode.splits)

lemma coords_of_Rank3:
  "coords_of g B (Rank3 (B, K) f) =
     Inr (case heatmap_mode g of
            INDIVIDUAL \<Rightarrow> \<lparr>c_shape = (B, 1, K), c_at = (\<lambda>b s t. f b t)\<rparr>
          | KEYPOINT \<Rightarrow> \<lparr>c_shape = (B, K, 1), c_at = (\<lambda>b t s. f b t)\<rparr>)"
  by (simp add: coords_of_def add_individual_dim_def transpose_0213_def split: Mode.splits)

lemma merge_cell_zero_nonneg: "0 \<le> merge_cell g cell kp 0"
  using merge_cell_bounds [of 0 g cell kp] by simp

lemma merge_cell_twice:
  "merge_cell g cell k2 (merge_cell g cell k1 0)
     = max (merge_cell g cell k1 0) (merge_cell g cell k2 0)"
  by (cases "kernel_of g") (auto simp add: merge_cell_def max_def)

lemma merge_list_two:
  "merge_list g cell [k1, k2] 0 = max (merge_list g cell [k1] 0) (merge_list g cell [k2] 0)"
  using merge_cell_zero_nonneg [of g cell "(snd k1, fst k1)"]
        merge_cell_zero_nonneg [of g cell "(snd k2, fst k2)"]
  by (simp add: merge_list_def merge_cell_twice)

lemma forward_max_merge:
  assumes "heatmap_mode g = KEYPOINT"
      and "forward g (B, ch, ih, iw) outputs (Rank4 (n0, 2, K) f) = Inr t12"
      and "forward g (B, ch, ih, iw) outputs (Rank4 (n0, 1, K) (\<lambda>b s. f b 0)) = Inr t1"
      and "forward g (B, ch, ih, iw) outputs (Rank4 (n0, 1, K) (\<lambda>b s. f b 1)) = Inr t2"
  shows "at4 (heatmap_target t12) b c i j
           = max (at4 (heatmap_target t1) b c i j) (at4 (heatmap_target t2) b c i j)"
proof -
  from forward_Inr [OF assms(2)] obtain bufs where
    "forward_loops g (B, ch, ih, iw) outputs (Rank4 (n0, 2, K) f) = Inr bufs" by blast
  then obtain o0 o1 H W where out: "outputs ''heatmap'' = Some (o0, o1, H, W)"
    by (rule forward_loops_Inr)
  let ?cell = "as_float (grid_of (real ih / real H) (real iw / real W)) i j"
  have c12: "coords_of g B (Rank4 (n0, 2, K) f)
               = Inr \<lparr>c_shape = (n0, K, 2), c_at = (\<lambda>b t s. f b s t)\<rparr>"
    and c1: "coords_of g B (Rank4 (n0, 1, K) (\<lambda>b s. f b 0))
               = Inr \<lparr>c_shape = (n0, K, 1), c_at = (\<lambda>b t s. f b 0 t)\<rparr>"
    and c2: "coords_of g B (Rank4 (n0, 1, K) (\<lambda>b s. f b 1))
               = Inr \<lparr>c_shape = (n0, K, 1), c_at = (\<lambda>b t s. f b 1 t)\<rparr>"
    by (simp_all add: coords_of_Rank4 assms(1))
  have h12: "at4 (heatmap_target t12) b c i j =
      (if b < B \<and> c < K \<and> i < H \<and> j < W then merge_list g ?cell [f b 0 c, f b 1 c] 0 else 0)"
    using forward_heatmap [OF assms(2) out c12, of n0 K 2 b c i j]
    by (simp add: numeral_2_eq_2)
  have h1: "at4 (heatmap_target t1) b c i j =
      (if b < B \<and> c < K \<and> i < H \<and> j < W then merge_list g ?cell [f b 0 c] 0 else 0)"
    using forward_heatmap [OF assms(3) out c1, of n0 K 1 b c i j] by simp
  have h2: "at4 (heatmap_target t2) b c i j =
      (if b < B \<and> c < K \<and> i < H \<and> j < W then merge_list g ?cell [f b 1 c] 0 else 0)"
    using forward_heatmap [OF assms(4) out c2, of n0 K 1 b c i j] by simp
  show ?thesis by (simp add: h12 h1 h2 merge_list_two)
qed

section \<open>The properties\<close>

text \<open>
  \<^bold>\<open>C1\<close> (the claim: no exception on a well-formed input; the Gaussian \<open>update\<close> with a mask
  buffer completes and sets the mask inside the threshold region). The code raises instead.
  The scenario is the specification's own: one image, one subject, two channels, a 4 by 4
  feature grid on an 8 by 8 input, a keypoint for channel 0 at pixel (3, 3),
  \<open>pos_dist_thresh = 3\<close>, and the constructor's defaults \<open>generate_locref = True\<close>,
  \<open>locref_std = 7.2801\<close>. The test \<open>if locref_mask:\<close> takes the truth value of an array of
  32 elements, which raises ValueError: \<open>update\<close> leaves the mask as it was and \<open>forward\<close>
  ends with the exception.
\<close>

theorem gaussian_locref_mask_raises:
  "\<exists>g. init HeatmapGaussianGenerator 2 3 KEYPOINT True (72801 / 10000) = Inr g
      \<and> snd (update g 4 4 (as_float (grid_of (real 8 / real 4) (real 8 / real 4))) (3, 3)
               \<lparr>heatmap = (\<lambda>i j. 0), locref_map = Some (\<lambda>i j d. 0),
                locref_mask = Some (\<lambda>i j d. 0)\<rparr>) = Some ValueError
      \<and> locref_mask (fst (update g 4 4 (as_float (grid_of (real 8 / real 4) (real 8 / real 4)))
               (3, 3)
               \<lparr>heatmap = (\<lambda>i j. 0), locref_map = Some (\<lambda>i j d. 0),
                locref_mask = Some (\<lambda>i j d. 0)\<rparr>)) = Some (\<lambda>i j d. 0)
      \<and> forward g (1, 3, 8, 8) [''heatmap'' \<mapsto> (1, 2, 4, 4), ''locref'' \<mapsto> (1, 4, 4, 4)]
           (Rank3 (1, 2) (\<lambda>b t. if t = 0 then (3, 3) else (0, 0))) = Inl ValueError"
proof -
  obtain g where g: "init HeatmapGaussianGenerator 2 3 KEYPOINT True (72801 / 10000) = Inr g"
    by (simp add: init_def)
  from init_Inr [OF g] have k: "kernel_of g = HeatmapGaussianGenerator"
    and n: "num_heatmaps g = 2" and m: "heatmap_mode g = KEYPOINT"
    and gl: "generate_locref g" by simp_all
  let ?v = "\<lparr>heatmap = (\<lambda>i j. 0), locref_map = Some (\<lambda>i j d. 0),
             locref_mask = Some (\<lambda>i j d. 0)\<rparr>"
  have u: "snd (update_gaussian g 4 4 (as_float (grid_of (real 8 / real 4) (real 8 / real 4)))
                  (3, 3) ?v) = Some ValueError
      \<and> locref_mask (fst (update_gaussian g 4 4
                  (as_float (grid_of (real 8 / real 4) (real 8 / real 4))) (3, 3) ?v))
          = Some (\<lambda>i j d. 0)"
    by (rule update_gaussian_mask_raises) simp_all
  have f: "forward g (1, 3, 8, 8) [''heatmap'' \<mapsto> (1, 2, 4, 4), ''locref'' \<mapsto> (1, 4, 4, 4)]
           (Rank3 (1, 2) (\<lambda>b t. if t = 0 then (3, 3) else (0, 0))) = Inl ValueError"
    by (rule forward_gaussian_locref_raises [where H = 4 and W = 4 and b = 0 and c = 0 and s = 0
          and ?n0.0 = 1 and ?n1.0 = 2 and ?n2.0 = 1
          and cs = "\<lparr>c_shape = (1, 2, 1),
                     c_at = (\<lambda>b t s. if t = 0 then (3, 3) else (0, 0))\<rparr>"])
       (simp_all add: coords_of_Rank3 k n m gl annotated_def)
  from g u f show ?thesis by (auto simp add: update_def k)
qed

text \<open>
  \<^bold>\<open>C2\<close> (the claim: grid entry \<open>(i, j)\<close> is exactly
  \<open>(i * (IH/H) + (IH/H)/2, j * (IW/W) + (IW/W)/2)\<close>). \<open>np.mgrid\<close> yields an integer array and
  the two slice assignments store into it, so every entry is truncated. For a 1 by 1 feature
  map on a 3 by 3 input the stride is 3, the centre of the only cell is 1.5, and the grid
  holds 1; for a 2 by 2 feature map on a 5 by 5 input the stride is 2.5, the centre of cell
  \<open>(1, 0)\<close> is \<open>(3.75, 1.25)\<close>, and the grid holds \<open>(3, 1)\<close>. All these numbers are exact in
  floating point.
\<close>

theorem grid_truncates_cell_centre:
  "as_float (grid_of (real 3 / real 1) (real 3 / real 1)) 0 0 = (1, 1)
   \<and> as_float (grid_of (real 3 / real 1) (real 3 / real 1)) 0 0
       \<noteq> (real 0 * (real 3 / real 1) + (real 3 / real 1) / 2,
           real 0 * (real 3 / real 1) + (real 3 / real 1) / 2)
   \<and> as_float (grid_of (real 5 / real 2) (real 5 / real 2)) 1 0 = (3, 1)
   \<and> (real 1 * (real 5 / real 2) + (real 5 / real 2) / 2,
       real 0 * (real 5 / real 2) + (real 5 / real 2) / 2) = (15 / 4, 5 / 4)"
  by (simp add: as_float_def grid_of_def mgrid_def trunc_def)

text \<open>
  \<^bold>\<open>C3\<close>: a keypoint with a coordinate that is not positive is skipped: the loop body
  returns the buffers it was given; and when every keypoint of a batch is such a keypoint,
  \<open>forward\<close> returns all-zero targets.
\<close>

theorem nonpositive_keypoint_skipped:
  "(fst kp \<le> 0 \<or> snd kp \<le> 0 \<longrightarrow> keypoint_step g grid b c kp bufs = Inr bufs)
   \<and> (outputs ''heatmap'' = Some (oa, ob, H, W) \<and> 0 < H \<and> 0 < W
        \<and> (generate_locref g \<longrightarrow> outputs ''locref'' \<noteq> None)
        \<and> coords_of g B kps = Inr cs \<and> c_shape cs = (na, nb, nc) \<and> B \<le> na
        \<and> (\<forall>b<B. \<forall>c<nb. \<forall>s<nc. fst (c_at cs b c s) \<le> 0 \<or> snd (c_at cs b c s) \<le> 0)
      \<longrightarrow> forward g (B, ch, ih, iw) outputs kps =
            Inr \<lparr>heatmap_target = zeros4 (B, num_heatmaps g, H, W),
                 locref = (if generate_locref g
                           then Some \<lparr>target = zeros4 (B, num_heatmaps g * 2, H, W),
                                      weights = zeros4 (B, num_heatmaps g * 2, H, W)\<rparr>
                           else None)\<rparr>)"
proof (intro conjI impI)
  assume "fst kp \<le> 0 \<or> snd kp \<le> 0"
  then have "\<not> annotated kp" by (auto simp add: annotated_def)
  then show "keypoint_step g grid b c kp bufs = Inr bufs" by (rule keypoint_step_skip)
next
  assume a: "outputs ''heatmap'' = Some (oa, ob, H, W) \<and> 0 < H \<and> 0 < W
        \<and> (generate_locref g \<longrightarrow> outputs ''locref'' \<noteq> None)
        \<and> coords_of g B kps = Inr cs \<and> c_shape cs = (na, nb, nc) \<and> B \<le> na
        \<and> (\<forall>b<B. \<forall>c<nb. \<forall>s<nc. fst (c_at cs b c s) \<le> 0 \<or> snd (c_at cs b c s) \<le> 0)"
  then have skip: "\<And>b c s. b < B \<Longrightarrow> c < nb \<Longrightarrow> s < nc \<Longrightarrow> \<not> annotated (c_at cs b c s)"
    by (auto simp add: annotated_def)
  have "batch_loop g (grid_of (real ih / real H) (real iw / real W)) cs B (new_buffers g B H W)
          = Inr (new_buffers g B H W)"
    using a by (intro batch_loop_skip [where ?n0.0 = na and ?n1.0 = nb and ?n2.0 = nc])
      (simp_all add: skip)
  then have r: "forward_loops g (B, ch, ih, iw) outputs kps = Inr (new_buffers g B H W)"
    using a by (simp add: forward_loops_def)
  show "forward g (B, ch, ih, iw) outputs kps =
            Inr \<lparr>heatmap_target = zeros4 (B, num_heatmaps g, H, W),
                 locref = (if generate_locref g
                           then Some \<lparr>target = zeros4 (B, num_heatmaps g * 2, H, W),
                                      weights = zeros4 (B, num_heatmaps g * 2, H, W)\<rparr>
                           else None)\<rparr>"
    using a by (auto simp add: forward_def r assemble_def new_buffers_def transpose_zeros4)
qed

theorem nonpositive_keypoint_skipped_witness:
  "\<exists>g. init HeatmapGaussianGenerator 2 3 KEYPOINT True (72801 / 10000) = Inr g
     \<and> keypoint_step g (grid_of 2 2) 0 0 (0, 5) (new_buffers g 1 4 4)
          = Inr (new_buffers g 1 4 4)
     \<and> forward g (1, 3, 8, 8) [''heatmap'' \<mapsto> (1, 2, 4, 4), ''locref'' \<mapsto> (1, 4, 4, 4)]
          (Rank3 (1, 2) (\<lambda>b t. if t = 0 then (0, 5) else (- 1, - 1)))
        = Inr \<lparr>heatmap_target = zeros4 (1, 2, 4, 4),
               locref = Some \<lparr>target = zeros4 (1, 4, 4, 4), weights = zeros4 (1, 4, 4, 4)\<rparr>\<rparr>"
proof -
  obtain g where g: "init HeatmapGaussianGenerator 2 3 KEYPOINT True (72801 / 10000) = Inr g"
    by (simp add: init_def)
  from init_Inr [OF g] have n: "num_heatmaps g = 2" and m: "heatmap_mode g = KEYPOINT"
    and gl: "generate_locref g" by simp_all
  note inst = nonpositive_keypoint_skipped [where kp = "(0, 5)" and g = g
      and grid = "grid_of 2 2" and b = 0 and c = 0 and bufs = "new_buffers g 1 4 4"
      and outputs = "[''heatmap'' \<mapsto> (1, 2, 4, 4), ''locref'' \<mapsto> (1, 4, 4, 4)]"
      and oa = 1 and ob = 2 and H = 4 and W = 4 and B = 1
      and kps = "Rank3 (1, 2) (\<lambda>b t. if t = 0 then (0, 5) else (- 1, - 1))"
      and cs = "\<lparr>c_shape = (1, 2, 1),
                 c_at = (\<lambda>b t s. if t = 0 then (0, 5) else (- 1, - 1))\<rparr>"
      and na = 1 and nb = 2 and nc = 1 and ch = 3 and ih = 8 and iw = 8]
  have "keypoint_step g (grid_of 2 2) 0 0 (0, 5) (new_buffers g 1 4 4)
          = Inr (new_buffers g 1 4 4)"
    using inst by simp
  moreover have "forward g (1, 3, 8, 8)
          [''heatmap'' \<mapsto> (1, 2, 4, 4), ''locref'' \<mapsto> (1, 4, 4, 4)]
          (Rank3 (1, 2) (\<lambda>b t. if t = 0 then (0, 5) else (- 1, - 1)))
        = Inr \<lparr>heatmap_target = zeros4 (1, 2, 4, 4),
               locref = Some \<lparr>target = zeros4 (1, 4, 4, 4), weights = zeros4 (1, 4, 4, 4)\<rparr>\<rparr>"
    using inst by (simp add: coords_of_Rank3 n m gl)
  ultimately show ?thesis using g by blast
qed

text \<open>
  \<^bold>\<open>C4\<close>: max-merge. For either kernel, two calls of \<open>update\<close> in sequence on a zero heatmap
  leave at every cell the maximum of what each call alone leaves on a zero heatmap, and
  a call never lowers a heatmap value (for the plateau kernel, a value that is at most 1,
  as every value written by \<open>forward\<close> is). For \<open>forward\<close> in KEYPOINT mode with two
  subjects, the heatmap is the cell-wise maximum of the heatmaps of the two single-subject
  batches. The heatmap is read in the views after the call: the Gaussian kernel writes it
  before the statement that raises when a mask is supplied.
\<close>

theorem heatmap_max_merge:
  assumes "init k n p mode gl ls = Inr g" and "0 < p"
  shows "(heatmap v = (\<lambda>i j. 0) \<longrightarrow>
            heatmap (fst (update g H W grid kb (fst (update g H W grid ka v)))) i j
              = max (heatmap (fst (update g H W grid ka v)) i j)
                    (heatmap (fst (update g H W grid kb v)) i j))
       \<and> ((kernel_of g = HeatmapPlateauGenerator \<longrightarrow> heatmap u i j \<le> 1)
            \<longrightarrow> heatmap u i j \<le> heatmap (fst (update g H W grid kp u)) i j)
       \<and> (mode = KEYPOINT
            \<and> forward g (B, ch, ih, iw) outputs (Rank4 (nb, 2, K) f) = Inr tab
            \<and> forward g (B, ch, ih, iw) outputs (Rank4 (nb, 1, K) (\<lambda>b s. f b 0)) = Inr ta
            \<and> forward g (B, ch, ih, iw) outputs (Rank4 (nb, 1, K) (\<lambda>b s. f b 1)) = Inr tb
          \<longrightarrow> at4 (heatmap_target tab) b c i j
                = max (at4 (heatmap_target ta) b c i j) (at4 (heatmap_target tb) b c i j))"
proof (intro conjI impI)
  assume "heatmap v = (\<lambda>i j. 0)"
  then show "heatmap (fst (update g H W grid kb (fst (update g H W grid ka v)))) i j
              = max (heatmap (fst (update g H W grid ka v)) i j)
                    (heatmap (fst (update g H W grid kb v)) i j)"
    by (simp add: update_heatmap merge_cell_twice)
next
  assume "kernel_of g = HeatmapPlateauGenerator \<longrightarrow> heatmap u i j \<le> 1"
  then show "heatmap u i j \<le> heatmap (fst (update g H W grid kp u)) i j"
    by (cases "kernel_of g") (auto simp add: update_heatmap merge_cell_def)
next
  assume a: "mode = KEYPOINT
            \<and> forward g (B, ch, ih, iw) outputs (Rank4 (nb, 2, K) f) = Inr tab
            \<and> forward g (B, ch, ih, iw) outputs (Rank4 (nb, 1, K) (\<lambda>b s. f b 0)) = Inr ta
            \<and> forward g (B, ch, ih, iw) outputs (Rank4 (nb, 1, K) (\<lambda>b s. f b 1)) = Inr tb"
  with init_Inr [OF assms(1)] have "heatmap_mode g = KEYPOINT" by simp
  with a forward_max_merge [of g B ch ih iw outputs nb K f tab ta tb b c i j]
  show "at4 (heatmap_target tab) b c i j
                = max (at4 (heatmap_target ta) b c i j) (at4 (heatmap_target tb) b c i j)"
    by simp
qed

theorem heatmap_max_merge_witness:
  "\<exists>g tab ta tb.
      init HeatmapPlateauGenerator 1 2 KEYPOINT True (72801 / 10000) = Inr g \<and> (0::int) < 2
    \<and> heatmap (fst (update g 4 4 (as_float (grid_of 2 2)) (5, 5)
                 (fst (update g 4 4 (as_float (grid_of 2 2)) (3, 3)
                    \<lparr>heatmap = (\<lambda>i j. 0), locref_map = None, locref_mask = None\<rparr>)))) 1 1
        = max (heatmap (fst (update g 4 4 (as_float (grid_of 2 2)) (3, 3)
                 \<lparr>heatmap = (\<lambda>i j. 0), locref_map = None, locref_mask = None\<rparr>)) 1 1)
              (heatmap (fst (update g 4 4 (as_float (grid_of 2 2)) (5, 5)
                 \<lparr>heatmap = (\<lambda>i j. 0), locref_map = None, locref_mask = None\<rparr>)) 1 1)
    \<and> (0::real) \<le> heatmap (fst (update g 4 4 (as_float (grid_of 2 2)) (3, 3)
                 \<lparr>heatmap = (\<lambda>i j. 0), locref_map = None, locref_mask = None\<rparr>)) 1 1
    \<and> forward g (1, 3, 8, 8) [''heatmap'' \<mapsto> (1, 1, 4, 4), ''locref'' \<mapsto> (1, 2, 4, 4)]
        (Rank4 (1, 2, 1) (\<lambda>b s t. if s = 0 then (3, 3) else (5, 5))) = Inr tab
    \<and> forward g (1, 3, 8, 8) [''heatmap'' \<mapsto> (1, 1, 4, 4), ''locref'' \<mapsto> (1, 2, 4, 4)]
        (Rank4 (1, 1, 1) (\<lambda>b s t. (3, 3))) = Inr ta
    \<and> forward g (1, 3, 8, 8) [''heatmap'' \<mapsto> (1, 1, 4, 4), ''locref'' \<mapsto> (1, 2, 4, 4)]
        (Rank4 (1, 1, 1) (\<lambda>b s t. (5, 5))) = Inr tb
    \<and> at4 (heatmap_target tab) 0 0 1 1
        = max (at4 (heatmap_target ta) 0 0 1 1) (at4 (heatmap_target tb) 0 0 1 1)"
proof -
  obtain g where g: "init HeatmapPlateauGenerator 1 2 KEYPOINT True (72801 / 10000) = Inr g"
    by (simp add: init_def)
  from init_Inr [OF g] have k: "kernel_of g = HeatmapPlateauGenerator"
    and n: "num_heatmaps g = 1" and m: "heatmap_mode g = KEYPOINT"
    and gl: "generate_locref g" by simp_all
  let ?out = "[''heatmap'' \<mapsto> (1::nat, 1::nat, 4::nat, 4::nat), ''locref'' \<mapsto> (1, 2, 4, 4)]"
  let ?f = "\<lambda>(b::nat) (s::nat) (t::nat). if s = 0 then (3::real, 3::real) else (5, 5)"
  let ?v = "\<lparr>heatmap = (\<lambda>i j. 0), locref_map = None, locref_mask = None\<rparr>"
  have fa: "(\<lambda>b s. ?f b 0) = (\<lambda>b s t. (3, 3))" and fb: "(\<lambda>b s. ?f b 1) = (\<lambda>b s t. (5, 5))"
    by (simp_all add: fun_eq_iff)
  have "\<exists>t. forward g (1, 3, 8, 8) ?out (Rank4 (1, 2, 1) ?f) = Inr t"
    by (rule forward_returns [where H = 4 and W = 4 and ?n0.0 = 1 and ?n1.0 = 1 and ?n2.0 = 2
          and cs = "\<lparr>c_shape = (1, 1, 2), c_at = (\<lambda>b t s. ?f b s t)\<rparr>"])
       (simp_all add: coords_of_Rank4 m n k)
  then obtain tab where tab: "forward g (1, 3, 8, 8) ?out (Rank4 (1, 2, 1) ?f) = Inr tab" ..
  have "\<exists>t. forward g (1, 3, 8, 8) ?out (Rank4 (1, 1, 1) (\<lambda>b s. ?f b 0)) = Inr t"
    by (rule forward_returns [where H = 4 and W = 4 and ?n0.0 = 1 and ?n1.0 = 1 and ?n2.0 = 1
          and cs = "\<lparr>c_shape = (1, 1, 1), c_at = (\<lambda>b t s. ?f b 0 t)\<rparr>"])
       (simp_all add: coords_of_Rank4 m n k)
  then obtain ta where ta: "forward g (1, 3, 8, 8) ?out (Rank4 (1, 1, 1) (\<lambda>b s. ?f b 0)) = Inr ta" ..
  have "\<exists>t. forward g (1, 3, 8, 8) ?out (Rank4 (1, 1, 1) (\<lambda>b s. ?f b 1)) = Inr t"
    by (rule forward_returns [where H = 4 and W = 4 and ?n0.0 = 1 and ?n1.0 = 1 and ?n2.0 = 1
          and cs = "\<lparr>c_shape = (1, 1, 1), c_at = (\<lambda>b t s. ?f b 1 t)\<rparr>"])
       (simp_all add: coords_of_Rank4 m n k)
  then obtain tb where tb: "forward g (1, 3, 8, 8) ?out (Rank4 (1, 1, 1) (\<lambda>b s. ?f b 1)) = Inr tb" ..
  note inst = heatmap_max_merge [OF g, where v = "?v" and u = "?v" and H = 4 and W = 4
      and grid = "as_float (grid_of 2 2)" and ka = "(3, 3)" and kb = "(5, 5)"
      and kp = "(3, 3)" and i = 1 and j = 1 and B = 1 and ch = 3 and ih = 8 and iw = 8
      and outputs = "?out" and nb = 1 and K = 1 and f = "?f" and tab = tab and ta = ta
      and tb = tb and b = 0 and c = 0]
  from inst tab ta tb have
    "heatmap (fst (update g 4 4 (as_float (grid_of 2 2)) (5, 5)
                 (fst (update g 4 4 (as_float (grid_of 2 2)) (3, 3) ?v)))) 1 1
        = max (heatmap (fst (update g 4 4 (as_float (grid_of 2 2)) (3, 3) ?v)) 1 1)
              (heatmap (fst (update g 4 4 (as_float (grid_of 2 2)) (5, 5) ?v)) 1 1)"
    and "(0::real) \<le> heatmap (fst (update g 4 4 (as_float (grid_of 2 2)) (3, 3) ?v)) 1 1"
    and "at4 (heatmap_target tab) 0 0 1 1
        = max (at4 (heatmap_target ta) 0 0 1 1) (at4 (heatmap_target tb) 0 0 1 1)"
    by simp_all
  with g tab ta tb show ?thesis
    unfolding fa fb
    by (intro exI [of _ g] exI [of _ tab] exI [of _ ta] exI [of _ tb]) simp
qed



text \<open>
  \<^bold>\<open>C6\<close>: on a zero heatmap the plateau kernel leaves 1 at every cell whose grid point
  lies within Euclidean distance \<open>dist_thresh\<close> of the keypoint and 0 at every other cell.
\<close>

theorem plateau_heatmap_is_disc:
  assumes "init HeatmapPlateauGenerator n p mode gl ls = Inr g" and "0 \<le> p"
      and "heatmap v = (\<lambda>i j. 0)"
  shows "heatmap (fst (update g H W grid kp v)) i j
           = (if i < H \<and> j < W \<and> norm2 (diff2 (grid i j) kp) \<le> dist_thresh g then 1 else 0)"
proof -
  from init_Inr [OF assms(1)] have k: "kernel_of g = HeatmapPlateauGenerator"
    and t: "dist_thresh g = real_of_int p" and t2: "dist_thresh_sq g = (real_of_int p)\<^sup>2"
    by simp_all
  have "sqdist (grid i j) kp \<le> (real_of_int p)\<^sup>2 \<longleftrightarrow> norm2 (diff2 (grid i j) kp) \<le> real_of_int p"
    using assms(2) by (simp add: norm2_def diff2_def sqdist_def sqrt_le_iff_sq)
  then show ?thesis
    using assms(3) by (simp add: update_heatmap merge_cell_def k t t2)
qed

theorem plateau_heatmap_is_disc_witness:
  "\<exists>g. init HeatmapPlateauGenerator 2 2 KEYPOINT True (72801 / 10000) = Inr g \<and> (0::int) \<le> 2
     \<and> heatmap (fst (update g 4 4 (as_float (grid_of 2 2)) (5, 5)
                  \<lparr>heatmap = (\<lambda>i j. 0), locref_map = Some (\<lambda>i j d. 0),
                   locref_mask = Some (\<lambda>i j d. 0)\<rparr>)) 2 3 = 1
     \<and> heatmap (fst (update g 4 4 (as_float (grid_of 2 2)) (5, 5)
                  \<lparr>heatmap = (\<lambda>i j. 0), locref_map = Some (\<lambda>i j d. 0),
                   locref_mask = Some (\<lambda>i j d. 0)\<rparr>)) 3 3 = 0"
proof -
  obtain g where g: "init HeatmapPlateauGenerator 2 2 KEYPOINT True (72801 / 10000) = Inr g"
    by (simp add: init_def)
  from init_Inr [OF g] have t: "dist_thresh g = 2" by simp
  let ?v = "\<lparr>heatmap = (\<lambda>i j. 0), locref_map = Some (\<lambda>i j d. 0),
             locref_mask = Some (\<lambda>i j d. 0)\<rparr>"
  have c: "as_float (grid_of 2 2) 2 3 = (5, 7)" and c': "as_float (grid_of 2 2) 3 3 = (7, 7)"
    by (simp_all add: as_float_def grid_of_def mgrid_def trunc_def)
  have d: "norm2 (diff2 (5, 7) (5, 5)) = 2"
    by (simp add: norm2_def diff2_def)
  have "(2::real)\<^sup>2 < 8" by simp
  then have "2 < sqrt 8" by (rule real_less_rsqrt)
  then have d': "\<not> norm2 (diff2 (7, 7) (5, 5)) \<le> 2"
    by (simp add: norm2_def diff2_def)
  have "heatmap (fst (update g 4 4 (as_float (grid_of 2 2)) (5, 5) ?v)) 2 3 = 1"
    using plateau_heatmap_is_disc [OF g, where v = "?v" and H = 4 and W = 4 and i = 2 and j = 3
        and grid = "as_float (grid_of 2 2)" and kp = "(5, 5)"]
    by (simp add: c d t)
  moreover have "heatmap (fst (update g 4 4 (as_float (grid_of 2 2)) (5, 5) ?v)) 3 3 = 0"
    using plateau_heatmap_is_disc [OF g, where v = "?v" and H = 4 and W = 4 and i = 3 and j = 3
        and grid = "as_float (grid_of 2 2)" and kp = "(5, 5)"] d'
    by (simp add: c' t)
  ultimately show ?thesis using g by (intro exI [of _ g]) simp
qed

text \<open>
  \<^bold>\<open>C7\<close>: the keypoint batch. A rank-3 batch \<open>(batch, type, 2)\<close> gets a subject axis of
  length 1; KEYPOINT mode swaps axes 1 and 2, so that the outer loop index (the heatmap
  channel) is the keypoint type and the inner one the subject, and INDIVIDUAL mode leaves the
  axes as they are (the channel is the subject). A keypoint stored as \<open>(x, y)\<close> reaches the
  kernel as \<open>(y, x)\<close>: its second coordinate is compared with the row coordinate of the grid
  and its first with the column coordinate.
\<close>

theorem coordinate_normalizer:
  "coords_of g B (Rank3 (B, K) f) =
     Inr (case heatmap_mode g of
            INDIVIDUAL \<Rightarrow> \<lparr>c_shape = (B, 1, K), c_at = (\<lambda>b s t. f b t)\<rparr>
          | KEYPOINT \<Rightarrow> \<lparr>c_shape = (B, K, 1), c_at = (\<lambda>b t s. f b t)\<rparr>)
   \<and> coords_of g B (Rank4 (n, S, K) f') =
     Inr (case heatmap_mode g of
            INDIVIDUAL \<Rightarrow> \<lparr>c_shape = (n, S, K), c_at = f'\<rparr>
          | KEYPOINT \<Rightarrow> \<lparr>c_shape = (n, K, S), c_at = (\<lambda>b t s. f' b s t)\<rparr>)
   \<and> (0 < x \<and> 0 < y \<and> shape4 (heatmap_b bufs) = (N, H, W, C) \<and> i < H \<and> j < W
        \<and> keypoint_step g grid b c (x, y) bufs = Inr bufs'
      \<longrightarrow> at4 (heatmap_b bufs') b i j c
            = merge_cell g (as_float grid i j) (y, x) (at4 (heatmap_b bufs) b i j c))"
proof (intro conjI impI)
  show "coords_of g B (Rank3 (B, K) f) =
     Inr (case heatmap_mode g of
            INDIVIDUAL \<Rightarrow> \<lparr>c_shape = (B, 1, K), c_at = (\<lambda>b s t. f b t)\<rparr>
          | KEYPOINT \<Rightarrow> \<lparr>c_shape = (B, K, 1), c_at = (\<lambda>b t s. f b t)\<rparr>)"
    by (rule coords_of_Rank3)
next
  show "coords_of g B (Rank4 (n, S, K) f') =
     Inr (case heatmap_mode g of
            INDIVIDUAL \<Rightarrow> \<lparr>c_shape = (n, S, K), c_at = f'\<rparr>
          | KEYPOINT \<Rightarrow> \<lparr>c_shape = (n, K, S), c_at = (\<lambda>b t s. f' b s t)\<rparr>)"
    by (rule coords_of_Rank4)
next
  assume a: "0 < x \<and> 0 < y \<and> shape4 (heatmap_b bufs) = (N, H, W, C) \<and> i < H \<and> j < W
        \<and> keypoint_step g grid b c (x, y) bufs = Inr bufs'"
  then have "annotated (x, y)" by (simp add: annotated_def)
  with a keypoint_step_heatmap [of g grid b c "(x, y)" bufs bufs' N H W C b i j c]
  show "at4 (heatmap_b bufs') b i j c
            = merge_cell g (as_float grid i j) (y, x) (at4 (heatmap_b bufs) b i j c)"
    by simp
qed

theorem coordinate_normalizer_witness:
  "\<exists>g bufs'. init HeatmapPlateauGenerator 1 1 KEYPOINT True (72801 / 10000) = Inr g
     \<and> coords_of g 1 (Rank3 (1, 1) (\<lambda>b t. (7, 5)))
         = Inr \<lparr>c_shape = (1, 1, 1), c_at = (\<lambda>b t s. (7, 5))\<rparr>
     \<and> (0::real) < 7 \<and> (0::real) < 5
     \<and> shape4 (heatmap_b (new_buffers g 1 4 4)) = (1, 4, 4, 1)
     \<and> keypoint_step g (grid_of 2 2) 0 0 (7, 5) (new_buffers g 1 4 4) = Inr bufs'
     \<and> at4 (heatmap_b bufs') 0 2 3 0 = 1
     \<and> at4 (heatmap_b bufs') 0 3 2 0 = 0"
proof -
  obtain g where g: "init HeatmapPlateauGenerator 1 1 KEYPOINT True (72801 / 10000) = Inr g"
    by (simp add: init_def)
  from init_Inr [OF g] have k: "kernel_of g = HeatmapPlateauGenerator"
    and n: "num_heatmaps g = 1" and m: "heatmap_mode g = KEYPOINT"
    and t: "dist_thresh_sq g = 1" by simp_all
  have shp: "shape4 (heatmap_b (new_buffers g 1 4 4)) = (1, 4, 4, 1)"
    by (simp add: new_buffers_def zeros4_def n)
  have "\<exists>bufs'. keypoint_step g (grid_of 2 2) 0 0 (7, 5) (new_buffers g 1 4 4) = Inr bufs'"
    by (rule keypoint_step_returns [where B = 1 and H = 4 and W = 4])
       (simp_all add: new_buffers_shapes n k)
  then obtain bufs' where
    s: "keypoint_step g (grid_of 2 2) 0 0 (7, 5) (new_buffers g 1 4 4) = Inr bufs'" ..
  have c: "as_float (grid_of 2 2) 2 3 = (5, 7)" and c': "as_float (grid_of 2 2) 3 2 = (7, 5)"
    by (simp_all add: as_float_def grid_of_def mgrid_def trunc_def)
  have x: "(0::real) < 7" and y: "(0::real) < 5" and i2: "(2::nat) < 4" and i3: "(3::nat) < 4"
    by simp_all
  note inst = coordinate_normalizer [where g = g and B = 1 and K = 1 and f = "\<lambda>b t. (7, 5)"
      and x = 7 and y = 5 and bufs = "new_buffers g 1 4 4" and N = 1 and H = 4 and W = 4
      and C = 1 and grid = "grid_of 2 2" and b = 0 and c = 0 and bufs' = bufs']
  have a: "coords_of g 1 (Rank3 (1, 1) (\<lambda>b t. (7, 5)))
         = Inr \<lparr>c_shape = (1, 1, 1), c_at = (\<lambda>b t s. (7, 5))\<rparr>"
    using inst [where i = 2 and j = 3, THEN conjunct1] by (simp add: m)
  have "at4 (heatmap_b bufs') 0 2 3 0
          = merge_cell g (as_float (grid_of 2 2) 2 3) (5, 7)
              (at4 (heatmap_b (new_buffers g 1 4 4)) 0 2 3 0)"
    using inst [where i = 2 and j = 3, THEN conjunct2, THEN conjunct2] x y shp i2 i3 s
    by blast
  then have h: "at4 (heatmap_b bufs') 0 2 3 0 = 1"
    by (simp add: c merge_cell_def k t sqdist_def)
  have "at4 (heatmap_b bufs') 0 3 2 0
          = merge_cell g (as_float (grid_of 2 2) 3 2) (5, 7)
              (at4 (heatmap_b (new_buffers g 1 4 4)) 0 3 2 0)"
    using inst [where i = 3 and j = 2, THEN conjunct2, THEN conjunct2] x y shp i2 i3 s
    by blast
  then have h': "at4 (heatmap_b bufs') 0 3 2 0 = 0"
    by (simp add: c' merge_cell_def k t sqdist_def new_buffers_heatmap_at)
  from g a x y shp s h h' show ?thesis by blast
qed

text \<open>
  \<^bold>\<open>C8\<close>: the result. When \<open>forward\<close> returns, its heatmap is the heatmap buffer of the
  loops with axes \<open>(batch, H, W, C)\<close> moved to \<open>(batch, C, H, W)\<close>, cell for cell, and has
  \<open>num_heatmaps\<close> channels; when locref generation is on, the locref map and the mask are
  the transposed buffers as well and have \<open>2 * num_heatmaps\<close> channels, and otherwise the
  result has no locref entry.
\<close>

theorem assembler_transposes:
  assumes "forward g (B, ch, ih, iw) outputs kps = Inr t"
      and "outputs ''heatmap'' = Some (oa, ob, H, W)"
  shows "\<exists>bufs. forward_loops g (B, ch, ih, iw) outputs kps = Inr bufs
          \<and> shape4 (heatmap_b bufs) = (B, H, W, num_heatmaps g)
          \<and> shape4 (heatmap_target t) = (B, num_heatmaps g, H, W)
          \<and> (\<forall>b c h w. at4 (heatmap_target t) b c h w = at4 (heatmap_b bufs) b h w c)
          \<and> (if generate_locref g
              then \<exists>lm lk l. locref_map_b bufs = Some lm \<and> locref_mask_b bufs = Some lk
                     \<and> locref t = Some l
                     \<and> shape4 lm = (B, H, W, num_heatmaps g * 2)
                     \<and> shape4 lk = (B, H, W, num_heatmaps g * 2)
                     \<and> shape4 (target l) = (B, 2 * num_heatmaps g, H, W)
                     \<and> shape4 (weights l) = (B, 2 * num_heatmaps g, H, W)
                     \<and> (\<forall>b c h w. at4 (target l) b c h w = at4 lm b h w c
                                  \<and> at4 (weights l) b c h w = at4 lk b h w c)
              else locref t = None)"
proof -
  from forward_Inr [OF assms(1)] obtain bufs where
    r: "forward_loops g (B, ch, ih, iw) outputs kps = Inr bufs" and a: "assemble g outputs bufs = Inr t"
    by blast
  from forward_loops_shapes [OF r assms(2)] have shp: "buffer_shapes g B H W bufs" .
  have hm: "heatmap_target t = transpose_0312 (heatmap_b bufs)" by (rule assemble_heatmap [OF a])
  have 1: "shape4 (heatmap_b bufs) = (B, H, W, num_heatmaps g)"
    using shp by (simp add: buffer_shapes_def)
  have 2: "shape4 (heatmap_target t) = (B, num_heatmaps g, H, W)"
    by (simp add: hm transpose_0312_shape [OF 1])
  have 3: "\<forall>b c h w. at4 (heatmap_target t) b c h w = at4 (heatmap_b bufs) b h w c"
    by (simp add: hm transpose_0312_at)
  have 4: "if generate_locref g
              then \<exists>lm lk l. locref_map_b bufs = Some lm \<and> locref_mask_b bufs = Some lk
                     \<and> locref t = Some l
                     \<and> shape4 lm = (B, H, W, num_heatmaps g * 2)
                     \<and> shape4 lk = (B, H, W, num_heatmaps g * 2)
                     \<and> shape4 (target l) = (B, 2 * num_heatmaps g, H, W)
                     \<and> shape4 (weights l) = (B, 2 * num_heatmaps g, H, W)
                     \<and> (\<forall>b c h w. at4 (target l) b c h w = at4 lm b h w c
                                  \<and> at4 (weights l) b c h w = at4 lk b h w c)
              else locref t = None"
  proof (cases "generate_locref g")
    case False
    with a show ?thesis by (simp add: assemble_def Let_def) auto
  next
    case True
    with shp obtain lm lk where lm: "locref_map_b bufs = Some lm"
      and lk: "locref_mask_b bufs = Some lk"
      and slm: "shape4 lm = (B, H, W, num_heatmaps g * 2)"
      and slk: "shape4 lk = (B, H, W, num_heatmaps g * 2)"
      by (auto simp add: buffer_shapes_def split: option.splits)
    from a True lm lk have l: "locref t = Some \<lparr>target = transpose_0312 lm,
                                                weights = transpose_0312 lk\<rparr>"
      by (auto simp add: assemble_def Let_def split: option.splits)
    have "shape4 (transpose_0312 lm) = (B, 2 * num_heatmaps g, H, W)"
      and "shape4 (transpose_0312 lk) = (B, 2 * num_heatmaps g, H, W)"
      by (simp_all add: transpose_0312_shape [OF slm] transpose_0312_shape [OF slk]
            mult.commute)
    with True lm lk slm slk l show ?thesis by (simp add: transpose_0312_at)
  qed
  from r 1 2 3 4 show ?thesis by blast
qed

theorem assembler_transposes_witness:
  "\<exists>g t bufs l. init HeatmapPlateauGenerator 2 2 KEYPOINT True (72801 / 10000) = Inr g
     \<and> forward g (1, 3, 8, 8) [''heatmap'' \<mapsto> (1, 2, 4, 4), ''locref'' \<mapsto> (1, 4, 4, 4)]
          (Rank3 (1, 2) (\<lambda>b t. if t = 0 then (3, 3) else (0, 0))) = Inr t
     \<and> forward_loops g (1, 3, 8, 8) [''heatmap'' \<mapsto> (1, 2, 4, 4), ''locref'' \<mapsto> (1, 4, 4, 4)]
          (Rank3 (1, 2) (\<lambda>b t. if t = 0 then (3, 3) else (0, 0))) = Inr bufs
     \<and> shape4 (heatmap_target t) = (1, 2, 4, 4)
     \<and> at4 (heatmap_target t) 0 0 2 3 = at4 (heatmap_b bufs) 0 2 3 0
     \<and> locref t = Some l
     \<and> shape4 (target l) = (1, 4, 4, 4) \<and> shape4 (weights l) = (1, 4, 4, 4)"
proof -
  obtain g where g: "init HeatmapPlateauGenerator 2 2 KEYPOINT True (72801 / 10000) = Inr g"
    by (simp add: init_def)
  from init_Inr [OF g] have k: "kernel_of g = HeatmapPlateauGenerator"
    and n: "num_heatmaps g = 2" and m: "heatmap_mode g = KEYPOINT"
    and gl: "generate_locref g" by simp_all
  let ?out = "[''heatmap'' \<mapsto> (1::nat, 2::nat, 4::nat, 4::nat), ''locref'' \<mapsto> (1, 4, 4, 4)]"
  let ?kps = "Rank3 (1, 2) (\<lambda>b t. if t = 0 then (3::real, 3::real) else (0, 0))"
  have "\<exists>t. forward g (1, 3, 8, 8) ?out ?kps = Inr t"
    by (rule forward_returns [where H = 4 and W = 4 and ?n0.0 = 1 and ?n1.0 = 2 and ?n2.0 = 1
          and cs = "\<lparr>c_shape = (1, 2, 1),
                     c_at = (\<lambda>b t s. if t = 0 then (3, 3) else (0, 0))\<rparr>"])
       (simp_all add: coords_of_Rank3 m n k)
  then obtain t where t: "forward g (1, 3, 8, 8) ?out ?kps = Inr t" ..
  have o: "?out ''heatmap'' = Some (1, 2, 4, 4)" by simp
  from assembler_transposes [OF t o] obtain bufs where
    r: "forward_loops g (1, 3, 8, 8) ?out ?kps = Inr bufs"
    and s: "shape4 (heatmap_target t) = (1, num_heatmaps g, 4, 4)"
    and a: "\<forall>b c h w. at4 (heatmap_target t) b c h w = at4 (heatmap_b bufs) b h w c"
    and lr: "if generate_locref g
              then \<exists>lm lk l. locref_map_b bufs = Some lm \<and> locref_mask_b bufs = Some lk
                     \<and> locref t = Some l
                     \<and> shape4 lm = (1, 4, 4, num_heatmaps g * 2)
                     \<and> shape4 lk = (1, 4, 4, num_heatmaps g * 2)
                     \<and> shape4 (target l) = (1, 2 * num_heatmaps g, 4, 4)
                     \<and> shape4 (weights l) = (1, 2 * num_heatmaps g, 4, 4)
                     \<and> (\<forall>b c h w. at4 (target l) b c h w = at4 lm b h w c
                                  \<and> at4 (weights l) b c h w = at4 lk b h w c)
              else locref t = None"
    by blast
  from lr gl obtain l where l: "locref t = Some l"
    and st: "shape4 (target l) = (1, 2 * num_heatmaps g, 4, 4)"
    and sw: "shape4 (weights l) = (1, 2 * num_heatmaps g, 4, 4)"
    by (simp only: if_True) blast
  from s st sw have "shape4 (heatmap_target t) = (1, 2, 4, 4)"
    and "shape4 (target l) = (1, 4, 4, 4)" and "shape4 (weights l) = (1, 4, 4, 4)"
    by (simp_all add: n)
  moreover from a have "at4 (heatmap_target t) 0 0 2 3 = at4 (heatmap_b bufs) 0 2 3 0"
    by blast
  ultimately show ?thesis using g t r l by blast
qed

text \<open>
  \<^bold>\<open>C9\<close>: the locref writes. The plateau kernel changes the locref map and the mask only
  at cells of the threshold region (squared distance at most \<open>dist_thresh_sq\<close>), where it
  stores the scaled offsets and the mask value 1; every other cell keeps its value. The
  Gaussian kernel stores the scaled offsets at every cell of the grid. (Read in the views
  after the call: the Gaussian kernel writes the locref map before the statement that
  raises.)
\<close>

theorem locref_write_regions:
  assumes "locref_map v = Some m" and "locref_mask v = Some k"
  shows "(\<exists>m' k'. locref_map (fst (update_plateau g H W grid kp v)) = Some m'
            \<and> locref_mask (fst (update_plateau g H W grid kp v)) = Some k'
            \<and> (\<forall>i j d. \<not> (i < H \<and> j < W \<and> d < 2 \<and> sqdist (grid i j) kp \<le> dist_thresh_sq g)
                   \<longrightarrow> m' i j d = m i j d \<and> k' i j d = k i j d)
            \<and> (\<forall>i<H. \<forall>j<W. sqdist (grid i j) kp \<le> dist_thresh_sq g
                   \<longrightarrow> m' i j 0 = (snd kp - snd (grid i j)) * locref_scale g
                     \<and> m' i j 1 = (fst kp - fst (grid i j)) * locref_scale g
                     \<and> k' i j 0 = 1 \<and> k' i j 1 = 1))
       \<and> (\<exists>m'. locref_map (fst (update_gaussian g H W grid kp v)) = Some m'
            \<and> (\<forall>i<H. \<forall>j<W. m' i j 0 = (snd kp - snd (grid i j)) * locref_scale g
                          \<and> m' i j 1 = (fst kp - fst (grid i j)) * locref_scale g))"
  using assms
  by (simp add: update_plateau_locref_map update_plateau_locref_mask update_gaussian_locref_map
        set_comp_def set_comp_where_def set_where_def)

theorem locref_write_regions_witness:
  "\<exists>g ma ka mb.
       init HeatmapPlateauGenerator 2 2 KEYPOINT True 2 = Inr g
     \<and> locref_map (fst (update_plateau g 4 4 (as_float (grid_of 2 2)) (5, 6)
           \<lparr>heatmap = (\<lambda>i j. 0), locref_map = Some (\<lambda>i j d. 9),
            locref_mask = Some (\<lambda>i j d. 0)\<rparr>)) = Some ma
     \<and> locref_mask (fst (update_plateau g 4 4 (as_float (grid_of 2 2)) (5, 6)
           \<lparr>heatmap = (\<lambda>i j. 0), locref_map = Some (\<lambda>i j d. 9),
            locref_mask = Some (\<lambda>i j d. 0)\<rparr>)) = Some ka
     \<and> ma 0 0 0 = 9 \<and> ka 0 0 0 = 0
     \<and> ma 2 3 0 = - 1 / 2 \<and> ma 2 3 1 = 0 \<and> ka 2 3 0 = 1 \<and> ka 2 3 1 = 1
     \<and> locref_map (fst (update_gaussian g 4 4 (as_float (grid_of 2 2)) (5, 6)
           \<lparr>heatmap = (\<lambda>i j. 0), locref_map = Some (\<lambda>i j d. 9),
            locref_mask = Some (\<lambda>i j d. 0)\<rparr>)) = Some mb
     \<and> mb 0 0 0 = 5 / 2 \<and> mb 0 0 1 = 2"
proof -
  obtain g where g: "init HeatmapPlateauGenerator 2 2 KEYPOINT True 2 = Inr g"
    by (simp add: init_def)
  from init_Inr [OF g] have t: "dist_thresh_sq g = 4" and sc: "locref_scale g = 1 / 2"
    by simp_all
  let ?v = "\<lparr>heatmap = (\<lambda>i j. 0), locref_map = Some (\<lambda>i j d. 9),
             locref_mask = Some (\<lambda>i j d. 0)\<rparr>"
  have c: "as_float (grid_of 2 2) 0 0 = (1, 1)" and c': "as_float (grid_of 2 2) 2 3 = (5, 7)"
    by (simp_all add: as_float_def grid_of_def mgrid_def trunc_def)
  from locref_write_regions [where v = "?v" and m = "\<lambda>i j d. 9" and k = "\<lambda>i j d. 0"
      and g = g and H = 4 and W = 4 and grid = "as_float (grid_of 2 2)" and kp = "(5, 6)"]
  obtain ma ka mb where
    pm: "locref_map (fst (update_plateau g 4 4 (as_float (grid_of 2 2)) (5, 6) ?v)) = Some ma"
    and pk: "locref_mask (fst (update_plateau g 4 4 (as_float (grid_of 2 2)) (5, 6) ?v)) = Some ka"
    and out: "\<forall>i j d. \<not> (i < 4 \<and> j < 4 \<and> d < 2
                 \<and> sqdist (as_float (grid_of 2 2) i j) (5, 6) \<le> dist_thresh_sq g)
               \<longrightarrow> ma i j d = 9 \<and> ka i j d = 0"
    and ins: "\<forall>i<4. \<forall>j<4. sqdist (as_float (grid_of 2 2) i j) (5, 6) \<le> dist_thresh_sq g
               \<longrightarrow> ma i j 0 = (snd (5::real, 6::real) - snd (as_float (grid_of 2 2) i j))
                                 * locref_scale g
                 \<and> ma i j 1 = (fst (5::real, 6::real) - fst (as_float (grid_of 2 2) i j))
                                 * locref_scale g
                 \<and> ka i j 0 = 1 \<and> ka i j 1 = 1"
    and gm: "locref_map (fst (update_gaussian g 4 4 (as_float (grid_of 2 2)) (5, 6) ?v)) = Some mb"
    and all: "\<forall>i<4. \<forall>j<4. mb i j 0 = (snd (5::real, 6::real) - snd (as_float (grid_of 2 2) i j))
                                 * locref_scale g
                 \<and> mb i j 1 = (fst (5::real, 6::real) - fst (as_float (grid_of 2 2) i j))
                                 * locref_scale g"
    by auto
  from out [rule_format, of 0 0 0] have o: "ma 0 0 0 = 9 \<and> ka 0 0 0 = 0"
    by (simp add: c t sqdist_def)
  from ins [rule_format, of 2 3] have i: "ma 2 3 0 = - 1 / 2 \<and> ma 2 3 1 = 0
      \<and> ka 2 3 0 = 1 \<and> ka 2 3 1 = 1"
    by (simp add: c' t sc sqdist_def)
  from all [rule_format, of 0 0] have a: "mb 0 0 0 = 5 / 2 \<and> mb 0 0 1 = 2"
    by (simp add: c sc)
  from g pm pk gm o i a show ?thesis by blast
qed

text \<open>
  \<^bold>\<open>C10\<close>: every value of the heatmap that \<open>forward\<close> returns lies between 0 and 1, for
  either kernel and any batch.
\<close>

theorem heatmap_in_unit_interval:
  assumes "init k n p mode gl ls = Inr g" and "0 < p"
      and "forward g inputs_shape outputs kps = Inr t"
  shows "0 \<le> at4 (heatmap_target t) b c h w \<and> at4 (heatmap_target t) b c h w \<le> 1"
proof -
  obtain B ch ih iw where inp: "inputs_shape = (B, ch, ih, iw)" by (cases inputs_shape) auto
  from forward_Inr [OF assms(3)] obtain bufs where
    r: "forward_loops g (B, ch, ih, iw) outputs kps = Inr bufs" by (auto simp add: inp)
  from r obtain oa ob H W cs where out: "outputs ''heatmap'' = Some (oa, ob, H, W)"
    and cs: "coords_of g B kps = Inr cs" by (rule forward_loops_Inr)
  obtain na nb nc where shp: "c_shape cs = (na, nb, nc)" by (cases "c_shape cs") auto
  from forward_heatmap [OF assms(3) [unfolded inp] out cs shp, of b c h w]
    merge_list_bounds [of 0]
  show ?thesis by simp
qed

theorem heatmap_in_unit_interval_witness:
  "\<exists>g t. init HeatmapGaussianGenerator 1 3 KEYPOINT False (72801 / 10000) = Inr g
     \<and> (0::int) < 3
     \<and> forward g (1, 3, 8, 8) [''heatmap'' \<mapsto> (1, 1, 4, 4)]
          (Rank4 (1, 2, 1) (\<lambda>b s t. if s = 0 then (3, 3) else (5, 5))) = Inr t
     \<and> 0 \<le> at4 (heatmap_target t) 0 0 2 2 \<and> at4 (heatmap_target t) 0 0 2 2 \<le> 1"
proof -
  obtain g where g: "init HeatmapGaussianGenerator 1 3 KEYPOINT False (72801 / 10000) = Inr g"
    by (simp add: init_def)
  from init_Inr [OF g] have k: "kernel_of g = HeatmapGaussianGenerator"
    and n: "num_heatmaps g = 1" and m: "heatmap_mode g = KEYPOINT"
    and gl: "\<not> generate_locref g" by simp_all
  let ?out = "[''heatmap'' \<mapsto> (1::nat, 1::nat, 4::nat, 4::nat)]"
  let ?f = "\<lambda>(b::nat) (s::nat) (t::nat). if s = 0 then (3::real, 3::real) else (5, 5)"
  have "\<exists>t. forward g (1, 3, 8, 8) ?out (Rank4 (1, 2, 1) ?f) = Inr t"
    by (rule forward_returns [where H = 4 and W = 4 and ?n0.0 = 1 and ?n1.0 = 1 and ?n2.0 = 2
          and cs = "\<lparr>c_shape = (1, 1, 2), c_at = (\<lambda>b t s. ?f b s t)\<rparr>"])
       (simp_all add: coords_of_Rank4 m n gl)
  then obtain t where t: "forward g (1, 3, 8, 8) ?out (Rank4 (1, 2, 1) ?f) = Inr t" ..
  have p: "(0::int) < 3" by simp
  from heatmap_in_unit_interval [OF g p t, of 0 0 2 2] g p t show ?thesis by blast
qed

end
